theory Spec2Isabelle
  imports Main "HOL-Library.Word"
begin

section \<open>Data model\<close>

text \<open>
  The server keeps three pieces of state: the module-level map \<open>challenges\<close>
  (server \<open>index.ts\<close>), the D1 database with the tables \<open>users\<close> and
  \<open>passkeys\<close> (\<open>schema.sql\<close>, \<open>db.ts\<close>) and the R2 bucket. Beside them the
  record of the server holds the one property of its JavaScript engine that the code
  depends on: the largest number of arguments that one call may have
  (\<open>worker_max_arguments\<close>). No handler changes it.
  Byte arrays (\<open>Uint8Array\<close>) are lists of 8-bit words, JavaScript strings are
  \<open>string\<close> (their code units taken below 256, which covers every string the code
  itself builds: base64 text, decimal numbers, keys), a nullable column or an optional
  property is an \<open>option\<close>.
  The timestamp columns \<open>created_at\<close> and \<open>last_used\<close> are never read by
  the code and are left out.
\<close>

type_synonym bytes = "8 word list"

text \<open>A row of table \<open>users\<close>; \<open>user_id\<close> is the column \<open>id\<close>.\<close>

record User =
  user_id :: nat
  username :: string
  prf_salt :: "string option"
  encrypted_blob_key :: "string option"
  blob_nonce :: "string option"

text \<open>A row of table \<open>passkeys\<close>; \<open>row_counter\<close> is the column \<open>counter\<close>,
  \<open>row_transports\<close> the column \<open>transports\<close>.\<close>

record passkey_row =
  cred_id :: string
  cred_public_key :: bytes
  internal_user_id :: nat
  webAuthn_user_id :: string
  row_counter :: nat
  backup_eligible :: bool
  backup_status :: bool
  row_transports :: "string option"

datatype device_type = singleDevice | multiDevice

text \<open>The shared type \<open>Passkey\<close>; \<open>pk_id\<close> is its property \<open>id\<close> and
  \<open>pk_user\<close> its property \<open>user\<close>.\<close>

record Passkey =
  pk_id :: string
  publicKey :: bytes
  pk_user :: User
  webAuthnUserID :: "string option"
  counter :: nat
  deviceType :: device_type
  backedUp :: bool
  transports :: "string list option"

record D1Database =
  users :: "User list"
  passkeys :: "passkey_row list"

record server =
  challenges :: "string \<rightharpoonup> string"
  DB :: D1Database
  R2_BUCKET :: "string \<rightharpoonup> bytes"
  worker_max_arguments :: nat

text \<open>An exception travelling through the code: one thrown by the WebAuthn library (server
  or browser side), a constraint violation or a type error reported by D1, \<open>atob\<close>
  refusing its argument, the \<open>DOMException\<close>s of Web Crypto, a \<open>TypeError\<close>, the
  \<open>RangeError\<close> of a call with too many arguments, a
  response body that is not JSON, and \<open>new Error(text)\<close> thrown by the client itself,
  where the text is a literal or the text of an exception that the server caught.\<close>

datatype js_error =
    LibraryError string
  | D1ConstraintError
  | D1TypeError
  | InvalidCharacterError
  | SyntaxError
  | DataError
  | InvalidAccessError
  | OperationError
  | TypeError
  | RangeError
  | JSONParseError
  | ClientError string
  | Rethrown js_error

section \<open>Strings\<close>

text \<open>\<open>Number.prototype.toString\<close> on a non-negative integer.\<close>

definition digit_char :: "nat \<Rightarrow> char" where
  "digit_char d = ''0123456789'' ! d"

fun toString :: "nat \<Rightarrow> string" where
  "toString n = (if n < 10 then [digit_char n] else toString (n div 10) @ [digit_char (n mod 10)])"

declare toString.simps [simp del]

text \<open>\<open>Array.prototype.join(",")\<close> and \<open>String.prototype.split(",")\<close>.\<close>

fun join_comma :: "string list \<Rightarrow> string" where
  "join_comma [] = []"
| "join_comma [x] = x"
| "join_comma (x # y # ys) = x @ CHR '','' # join_comma (y # ys)"

fun split_comma_acc :: "string \<Rightarrow> string \<Rightarrow> string list" where
  "split_comma_acc acc [] = [rev acc]"
| "split_comma_acc acc (c # cs) =
     (if c = CHR '','' then rev acc # split_comma_acc [] cs else split_comma_acc (c # acc) cs)"

definition split_comma :: "string \<Rightarrow> string list" where
  "split_comma s = split_comma_acc [] s"

section \<open>Database access (\<open>db.ts\<close>)\<close>

text \<open>\<open>.first()\<close> of a \<open>SELECT ... WHERE\<close>: the first matching row or null.\<close>

definition getUser :: "D1Database \<Rightarrow> string \<Rightarrow> User option" where
  "getUser db name = find (\<lambda>u. username u = name) (users db)"

definition getUserById :: "D1Database \<Rightarrow> nat \<Rightarrow> User option" where
  "getUserById db uid = find (\<lambda>u. user_id u = uid) (users db)"

text \<open>
  \<open>INSERT INTO users (username) VALUES (?) RETURNING *\<close>. The column \<open>id\<close> is
  \<open>INTEGER PRIMARY KEY AUTOINCREMENT\<close>: one more than the largest id in use (no row is
  ever deleted); the other columns take their default null. \<open>username\<close> is
  \<open>UNIQUE\<close>, so the insert throws when the name is taken.
\<close>

definition next_user_id :: "User list \<Rightarrow> nat" where
  "next_user_id us = Suc (fold max (map user_id us) 0)"

definition createUser :: "D1Database \<Rightarrow> string \<Rightarrow> js_error + (User \<times> D1Database)" where
  "createUser db name =
     (if \<exists>u \<in> set (users db). username u = name then Inl D1ConstraintError
      else
        let u = \<lparr>user_id = next_user_id (users db), username = name, prf_salt = None,
                 encrypted_blob_key = None, blob_nonce = None\<rparr>
        in Inr (u, db\<lparr>users := users db @ [u]\<rparr>))"

text \<open>
  The row read back as a \<open>Passkey\<close>. The code reads the property
  \<open>webauthn_user_id\<close>, while the column is named \<open>webAuthn_user_id\<close>; the row
  object has no property of the lower-case name, so \<open>webAuthnUserID\<close> is undefined.
  \<open>result.transports ? result.transports.split(",") : undefined\<close>: null and the
  empty string are both falsy.
\<close>

definition passkey_of_row :: "User \<Rightarrow> passkey_row \<Rightarrow> Passkey" where
  "passkey_of_row u r =
     \<lparr>pk_id = cred_id r,
      publicKey = cred_public_key r,
      pk_user = u,
      webAuthnUserID = None,
      counter = row_counter r,
      deviceType = (if backup_eligible r then multiDevice else singleDevice),
      backedUp = backup_status r,
      transports = (case row_transports r of
                      None \<Rightarrow> None
                    | Some t \<Rightarrow> if t = [] then None else Some (split_comma t))\<rparr>"

text \<open>
  \<open>INSERT INTO passkeys\<close>. \<open>cred_id\<close> is the primary key, so a second row with
  the same id makes the statement throw; so does binding an undefined value.
\<close>

definition savePasskey :: "D1Database \<Rightarrow> Passkey \<Rightarrow> js_error + D1Database" where
  "savePasskey db p =
     (case webAuthnUserID p of
        None \<Rightarrow> Inl D1TypeError
      | Some handle \<Rightarrow>
          if \<exists>r \<in> set (passkeys db). cred_id r = pk_id p then Inl D1ConstraintError
          else Inr (db\<lparr>passkeys := passkeys db @
            [\<lparr>cred_id = pk_id p,
              cred_public_key = publicKey p,
              internal_user_id = user_id (pk_user p),
              webAuthn_user_id = handle,
              row_counter = counter p,
              backup_eligible = (deviceType p = multiDevice),
              backup_status = backedUp p,
              row_transports = map_option join_comma (transports p)\<rparr>]\<rparr>))"

definition getUserPasskeys :: "D1Database \<Rightarrow> nat \<Rightarrow> Passkey list" where
  "getUserPasskeys db uid =
     (let results = filter (\<lambda>r. internal_user_id r = uid) (passkeys db)
      in case getUserById db uid of
           None \<Rightarrow> []
         | Some u \<Rightarrow> map (passkey_of_row u) results)"

definition getPasskeyById :: "D1Database \<Rightarrow> string \<Rightarrow> Passkey option" where
  "getPasskeyById db credId =
     (case find (\<lambda>r. cred_id r = credId) (passkeys db) of
        None \<Rightarrow> None
      | Some result \<Rightarrow>
          (case getUserById db (internal_user_id result) of
             None \<Rightarrow> None
           | Some u \<Rightarrow> Some (passkey_of_row u result)))"

text \<open>\<open>UPDATE passkeys SET counter = ? WHERE cred_id = ?\<close>.\<close>

definition updatePasskeyCounter :: "D1Database \<Rightarrow> string \<Rightarrow> nat \<Rightarrow> D1Database" where
  "updatePasskeyCounter db credId newCounter =
     db\<lparr>passkeys := map (\<lambda>r. if cred_id r = credId then r\<lparr>row_counter := newCounter\<rparr> else r)
                         (passkeys db)\<rparr>"

text \<open>\<open>UPDATE users SET encrypted_blob_key = ?, blob_nonce = ? WHERE id = ?\<close>.\<close>

definition saveUserBlobReference :: "D1Database \<Rightarrow> nat \<Rightarrow> string \<Rightarrow> string \<Rightarrow> D1Database" where
  "saveUserBlobReference db userId blobKey nonce =
     db\<lparr>users := map (\<lambda>u. if user_id u = userId
                            then u\<lparr>encrypted_blob_key := Some blobKey, blob_nonce := Some nonce\<rparr>
                            else u) (users db)\<rparr>"

text \<open>\<open>SELECT encrypted_blob_key, blob_nonce FROM users WHERE id = ?\<close>.\<close>

definition getUserBlobReference :: "D1Database \<Rightarrow> nat \<Rightarrow> (string option \<times> string option) option" where
  "getUserBlobReference db userId =
     map_option (\<lambda>u. (encrypted_blob_key u, blob_nonce u)) (getUserById db userId)"

text \<open>\<open>UPDATE users SET prf_salt = ? WHERE id = ?\<close>.\<close>

definition saveUserPrfSalt :: "D1Database \<Rightarrow> nat \<Rightarrow> string \<Rightarrow> D1Database" where
  "saveUserPrfSalt db userId prfSalt =
     db\<lparr>users := map (\<lambda>u. if user_id u = userId then u\<lparr>prf_salt := Some prfSalt\<rparr> else u)
                      (users db)\<rparr>"

text \<open>\<open>result?.prf_salt || null\<close>: a missing row, a null and an empty string all
  give null.\<close>

definition getUserPrfSalt :: "D1Database \<Rightarrow> nat \<Rightarrow> string option" where
  "getUserPrfSalt db userId =
     (case getUserById db userId of
        None \<Rightarrow> None
      | Some u \<Rightarrow> (case prf_salt u of
                     None \<Rightarrow> None
                   | Some s \<Rightarrow> if s = [] then None else Some s))"

section \<open>Base64 (\<open>btoa\<close>, \<open>atob\<close>)\<close>

text \<open>
  The platform's \<open>btoa\<close> and \<open>atob\<close>. Both work on a binary string, which is
  given here by the bytes that are its character codes. \<open>atob\<close>, which the code
  always follows by \<open>Uint8Array.from(..., c => c.charCodeAt(0))\<close>, is the forgiving
  decoder of the HTML standard: it drops ASCII whitespace, accepts missing padding, and
  throws on anything else. On the way to \<open>btoa\<close> the code makes the binary string by
  \<open>String.fromCharCode(...bytes)\<close>: every byte becomes an argument of one call, and
  the engine throws a \<open>RangeError\<close> when the call has more arguments than it can
  take. That bound differs between engines and is a parameter.
\<close>

definition b64_char :: "nat \<Rightarrow> char" where
  "b64_char n =
     (if n < 26 then char_of (65 + n)
      else if n < 52 then char_of (71 + n)
      else if n < 62 then char_of (n - 4)
      else if n = 62 then CHR ''+'' else CHR ''/'')"

definition b64_val :: "char \<Rightarrow> nat option" where
  "b64_val c =
     (let k = (of_char c :: nat) in
      if 65 \<le> k \<and> k \<le> 90 then Some (k - 65)
      else if 97 \<le> k \<and> k \<le> 122 then Some (k - 71)
      else if 48 \<le> k \<and> k \<le> 57 then Some (k + 4)
      else if c = CHR ''+'' then Some 62
      else if c = CHR ''/'' then Some 63
      else None)"

fun b64_encode :: "nat list \<Rightarrow> string" where
  "b64_encode [] = []"
| "b64_encode [a] = [b64_char (a div 4), b64_char ((a mod 4) * 16), CHR ''='', CHR ''='']"
| "b64_encode [a, b] =
     [b64_char (a div 4), b64_char ((a mod 4) * 16 + b div 16), b64_char ((b mod 16) * 4),
      CHR ''='']"
| "b64_encode (a # b # c # rest) =
     [b64_char (a div 4), b64_char ((a mod 4) * 16 + b div 16),
      b64_char ((b mod 16) * 4 + c div 64), b64_char (c mod 64)] @ b64_encode rest"

definition btoa :: "bytes \<Rightarrow> string" where
  "btoa bs = b64_encode (map unat bs)"

text \<open>\<open>String.fromCharCode(...bytes)\<close> under an engine that takes at most
  \<open>limit\<close> arguments, and \<open>btoa(String.fromCharCode(...bytes))\<close>.\<close>

definition fromCharCode_spread :: "nat \<Rightarrow> bytes \<Rightarrow> js_error + bytes" where
  "fromCharCode_spread limit bs = (if limit < length bs then Inl RangeError else Inr bs)"

definition btoa_spread :: "nat \<Rightarrow> bytes \<Rightarrow> js_error + string" where
  "btoa_spread limit bs =
     (case fromCharCode_spread limit bs of
        Inl e \<Rightarrow> Inl e
      | Inr binary \<Rightarrow> Inr (btoa binary))"

fun b64_decode :: "nat list \<Rightarrow> nat list" where
  "b64_decode (s1 # s2 # s3 # s4 # rest) =
     [s1 * 4 + s2 div 16, (s2 mod 16) * 16 + s3 div 4, (s3 mod 4) * 64 + s4] @ b64_decode rest"
| "b64_decode [s1, s2, s3] = [s1 * 4 + s2 div 16, (s2 mod 16) * 16 + s3 div 4]"
| "b64_decode [s1, s2] = [s1 * 4 + s2 div 16]"
| "b64_decode _ = []"

definition ascii_whitespace :: "char \<Rightarrow> bool" where
  "ascii_whitespace c = ((of_char c :: nat) \<in> {9, 10, 12, 13, 32})"

definition strip_padding :: "string \<Rightarrow> string" where
  "strip_padding s =
     (if length s mod 4 = 0 \<and> s \<noteq> [] \<and> last s = CHR ''=''
      then (if butlast s \<noteq> [] \<and> last (butlast s) = CHR ''='' then butlast (butlast s)
            else butlast s)
      else s)"

definition atob :: "string \<Rightarrow> js_error + bytes" where
  "atob s =
     (let t = strip_padding (filter (\<lambda>c. \<not> ascii_whitespace c) s) in
      if length t mod 4 = 1 \<or> (\<exists>c \<in> set t. b64_val c = None) then Inl InvalidCharacterError
      else Inr (map of_nat (b64_decode (map (\<lambda>c. the (b64_val c)) t))))"

section \<open>The WebAuthn library (\<open>@simplewebauthn/server\<close>)\<close>

text \<open>
  The library is an external collaborator. What the server hands to it and takes from it
  is modelled as data; its two verification functions are parameters of the endpoints
  that call them, and the challenge that its option generators draw at random is a
  parameter of the endpoints that issue one.

  A ceremony response as the browser posts it: the fields the server reads itself, the
  signed material that only the library reads, and (for an assertion) the PRF output
  \<open>clientExtensionResults.prf.results.first\<close>, which only the client reads.
\<close>

record RegistrationResponseJSON =
  reg_id :: string
  reg_userHandle :: "string option"
  reg_transports :: "string list option"
  reg_challenge :: string
  reg_publicKey :: bytes
  reg_counter :: nat

record AuthenticationResponseJSON =
  auth_id :: string
  auth_challenge :: string
  auth_signed_by :: bytes
  auth_counter :: nat
  auth_prf_first :: "bytes option"

record credential_info =
  credential_id :: string
  credential_publicKey :: bytes
  credential_counter :: nat

record registrationInfo =
  credential :: credential_info
  credentialDeviceType :: device_type
  credentialBackedUp :: bool

record VerifiedRegistrationResponse =
  reg_verified :: bool
  reg_info :: "registrationInfo option"

record VerifiedAuthenticationResponse =
  auth_verified :: bool
  newCounter :: nat

text \<open>The \<open>credential\<close> argument of \<open>verifyAuthenticationResponse\<close>.\<close>

record WebAuthnCredential =
  wc_id :: string
  wc_publicKey :: bytes
  wc_counter :: nat
  wc_transports :: "string list option"

text \<open>Arguments: response, expected challenge, expected origin, expected RP id
  (and the credential).\<close>

type_synonym registration_verifier =
  "RegistrationResponseJSON \<Rightarrow> string \<Rightarrow> string \<Rightarrow> string \<Rightarrow> js_error + VerifiedRegistrationResponse"

type_synonym authentication_verifier =
  "AuthenticationResponseJSON \<Rightarrow> string \<Rightarrow> string \<Rightarrow> string \<Rightarrow> WebAuthnCredential
     \<Rightarrow> js_error + VerifiedAuthenticationResponse"

record credential_descriptor =
  desc_id :: string
  desc_transports :: "string list option"

record PublicKeyCredentialCreationOptionsJSON =
  co_challenge :: string
  co_rpName :: string
  co_rpID :: string
  co_userName :: string
  co_userID :: bytes
  co_excludeCredentials :: "credential_descriptor list"
  co_prf :: bool

record PublicKeyCredentialRequestOptionsJSON =
  ro_challenge :: string
  ro_rpID :: string
  ro_allowCredentials :: "credential_descriptor list"
  ro_prf :: bool

section \<open>The endpoints (server \<open>index.ts\<close>)\<close>

text \<open>What a handler answers: \<open>c.json(body, status)\<close>, one constructor per shape of
  body. \<open>ErrorReply\<close> is \<open>{error: <text>}\<close> with a literal text, \<open>ThrownReply\<close> is
  \<open>{error: String(error)}\<close> of a caught exception, \<open>InternalServerError\<close> the
  framework's answer to an exception no handler catches.\<close>

datatype reply =
    ErrorReply string nat
  | ThrownReply js_error nat
  | InternalServerError js_error
  | CreationOptionsReply PublicKeyCredentialCreationOptionsJSON
  | RequestOptionsReply PublicKeyCredentialRequestOptionsJSON
  | VerifiedReply bool "User option"
  | StoreBlobReply string
  | RetrieveBlobReply string "string option"
  | SuccessReply
  | PrfSaltReply "string option"
  | HasBlobReply bool

definition rpID :: string where
  "rpID = ''localhost''"

definition origin :: string where
  "origin = ''http://'' @ rpID @ '':5173''"

definition descriptor_of :: "Passkey \<Rightarrow> credential_descriptor" where
  "descriptor_of passkey = \<lparr>desc_id = pk_id passkey, desc_transports = transports passkey\<rparr>"

definition string_bytes :: "string \<Rightarrow> bytes" where
  "string_bytes s = map (\<lambda>c. of_nat (of_char c)) s"

text \<open>\<open>POST /generate-registration-options\<close>; \<open>fresh\<close> is the challenge drawn by
  \<open>generateRegistrationOptions\<close>.\<close>

definition generate_registration_options :: "string \<Rightarrow> string \<Rightarrow> server \<Rightarrow> reply \<times> server" where
  "generate_registration_options fresh name st =
     (case (case getUser (DB st) name of
              Some u \<Rightarrow> Inr (u, DB st)
            | None \<Rightarrow> createUser (DB st) name) of
        Inl e \<Rightarrow> (InternalServerError e, st)
      | Inr (user, db) \<Rightarrow>
          let userPasskeys = getUserPasskeys db (user_id user);
              options = \<lparr>co_challenge = fresh,
                         co_rpName = ''SimpleWebAuthn Example'',
                         co_rpID = rpID,
                         co_userName = username user,
                         co_userID = string_bytes (toString (user_id user)),
                         co_excludeCredentials = map descriptor_of userPasskeys,
                         co_prf = True\<rparr>
          in (CreationOptionsReply options,
              st\<lparr>DB := db, challenges := (challenges st)(name \<mapsto> co_challenge options)\<rparr>))"

text \<open>\<open>POST /verify-registration\<close>. \<open>!expectedChallenge\<close> holds for a missing entry
  and for the empty string.\<close>

definition verify_registration ::
  "registration_verifier \<Rightarrow> string \<Rightarrow> RegistrationResponseJSON \<Rightarrow> server \<Rightarrow> reply \<times> server" where
  "verify_registration verifyRegistrationResponse name response st =
     (case challenges st name of
        None \<Rightarrow> (ErrorReply ''Challenge not found'' 400, st)
      | Some expectedChallenge \<Rightarrow>
          if expectedChallenge = [] then (ErrorReply ''Challenge not found'' 400, st)
          else
          (case getUser (DB st) name of
             None \<Rightarrow> (ErrorReply ''User not found'' 400, st)
           | Some user \<Rightarrow>
               (case verifyRegistrationResponse response expectedChallenge origin rpID of
                  Inl e \<Rightarrow> (ThrownReply e 400, st)
                | Inr verification \<Rightarrow>
                    (case (reg_verified verification, reg_info verification) of
                       (True, Some info) \<Rightarrow>
                         let newPasskey =
                               \<lparr>pk_id = credential_id (credential info),
                                publicKey = credential_publicKey (credential info),
                                pk_user = user,
                                webAuthnUserID =
                                  (case reg_userHandle response of
                                     None \<Rightarrow> Some (toString (user_id user))
                                   | Some h \<Rightarrow> if h = [] then Some (toString (user_id user))
                                              else Some h),
                                counter = credential_counter (credential info),
                                deviceType = credentialDeviceType info,
                                backedUp = credentialBackedUp info,
                                transports = reg_transports response\<rparr>
                         in (case savePasskey (DB st) newPasskey of
                               Inl e \<Rightarrow> (ThrownReply e 400, st)
                             | Inr db \<Rightarrow>
                                 (VerifiedReply True None,
                                  st\<lparr>DB := db, challenges := (challenges st)(name := None)\<rparr>))
                     | _ \<Rightarrow> (VerifiedReply False None, st)))))"

text \<open>\<open>POST /generate-authentication-options\<close>; \<open>fresh\<close> is the challenge drawn by
  \<open>generateAuthenticationOptions\<close>.\<close>

definition generate_authentication_options :: "string \<Rightarrow> string \<Rightarrow> server \<Rightarrow> reply \<times> server" where
  "generate_authentication_options fresh name st =
     (case getUser (DB st) name of
        None \<Rightarrow> (ErrorReply ''User not found'' 404, st)
      | Some user \<Rightarrow>
          let userPasskeys = getUserPasskeys (DB st) (user_id user) in
          if length userPasskeys = 0 then (ErrorReply ''No passkeys found for user'' 404, st)
          else
            let options = \<lparr>ro_challenge = fresh,
                           ro_rpID = rpID,
                           ro_allowCredentials = map descriptor_of userPasskeys,
                           ro_prf = True\<rparr>
            in (RequestOptionsReply options,
                st\<lparr>challenges := (challenges st)(name \<mapsto> ro_challenge options)\<rparr>))"

text \<open>\<open>POST /verify-authentication\<close>.\<close>

definition verify_authentication ::
  "authentication_verifier \<Rightarrow> string \<Rightarrow> AuthenticationResponseJSON \<Rightarrow> server \<Rightarrow> reply \<times> server" where
  "verify_authentication verifyAuthenticationResponse name response st =
     (case challenges st name of
        None \<Rightarrow> (ErrorReply ''Challenge not found'' 400, st)
      | Some expectedChallenge \<Rightarrow>
          if expectedChallenge = [] then (ErrorReply ''Challenge not found'' 400, st)
          else
          (case getUser (DB st) name of
             None \<Rightarrow> (ErrorReply ''User not found'' 404, st)
           | Some user \<Rightarrow>
               (case getPasskeyById (DB st) (auth_id response) of
                  None \<Rightarrow> (ErrorReply ''Passkey not found'' 404, st)
                | Some passkey \<Rightarrow>
                    (case verifyAuthenticationResponse response expectedChallenge origin rpID
                            \<lparr>wc_id = pk_id passkey,
                             wc_publicKey = publicKey passkey,
                             wc_counter = counter passkey,
                             wc_transports = transports passkey\<rparr> of
                       Inl e \<Rightarrow> (ThrownReply e 400, st)
                     | Inr verification \<Rightarrow>
                         if auth_verified verification
                         then (VerifiedReply True (Some (pk_user passkey)),
                               st\<lparr>DB := updatePasskeyCounter (DB st) (pk_id passkey)
                                           (newCounter verification),
                                  challenges := (challenges st)(name := None)\<rparr>)
                         else (VerifiedReply False None, st)))))"

text \<open>\<open>POST /store-blob\<close>.\<close>

definition blobKey_of :: "nat \<Rightarrow> string" where
  "blobKey_of uid = ''user-'' @ toString uid @ ''-blob''"

definition store_blob :: "string \<Rightarrow> string \<Rightarrow> string \<Rightarrow> server \<Rightarrow> reply \<times> server" where
  "store_blob name encryptedBlob nonce st =
     (case getUser (DB st) name of
        None \<Rightarrow> (ErrorReply ''User not found'' 404, st)
      | Some user \<Rightarrow>
          let blobKey = blobKey_of (user_id user) in
          (case atob encryptedBlob of
             Inl e \<Rightarrow> (ThrownReply e 500, st)
           | Inr blobData \<Rightarrow>
               (StoreBlobReply blobKey,
                st\<lparr>R2_BUCKET := (R2_BUCKET st)(blobKey \<mapsto> blobData),
                   DB := saveUserBlobReference (DB st) (user_id user) blobKey nonce\<rparr>)))"

text \<open>\<open>POST /retrieve-blob\<close>. \<open>!blobRef || !blobRef.encrypted_blob_key\<close> holds for a
  missing row, a null key and an empty key. The object is encoded inside the \<open>try\<close>,
  so an exception of the encoding is answered with status 500.\<close>

definition retrieve_blob :: "string \<Rightarrow> server \<Rightarrow> reply \<times> server" where
  "retrieve_blob name st =
     (case getUser (DB st) name of
        None \<Rightarrow> (ErrorReply ''User not found'' 404, st)
      | Some user \<Rightarrow>
          (case getUserBlobReference (DB st) (user_id user) of
             None \<Rightarrow> (ErrorReply ''No blob found for user'' 404, st)
           | Some (None, _) \<Rightarrow> (ErrorReply ''No blob found for user'' 404, st)
           | Some (Some key, nonce) \<Rightarrow>
               if key = [] then (ErrorReply ''No blob found for user'' 404, st)
               else
                 (case R2_BUCKET st key of
                    None \<Rightarrow> (ErrorReply ''Blob not found in storage'' 404, st)
                  | Some object \<Rightarrow>
                      (case btoa_spread (worker_max_arguments st) object of
                         Inl e \<Rightarrow> (ThrownReply e 500, st)
                       | Inr base64Blob \<Rightarrow> (RetrieveBlobReply base64Blob nonce, st)))))"

text \<open>\<open>POST /save-prf-salt\<close>.\<close>

definition save_prf_salt :: "string \<Rightarrow> string \<Rightarrow> server \<Rightarrow> reply \<times> server" where
  "save_prf_salt name prfSalt st =
     (case getUser (DB st) name of
        None \<Rightarrow> (ErrorReply ''User not found'' 404, st)
      | Some user \<Rightarrow>
          (SuccessReply, st\<lparr>DB := saveUserPrfSalt (DB st) (user_id user) prfSalt\<rparr>))"

text \<open>\<open>POST /get-prf-salt\<close>.\<close>

definition get_prf_salt :: "string \<Rightarrow> server \<Rightarrow> reply \<times> server" where
  "get_prf_salt name st =
     (case getUser (DB st) name of
        None \<Rightarrow> (ErrorReply ''User not found'' 404, st)
      | Some user \<Rightarrow> (PrfSaltReply (getUserPrfSalt (DB st) (user_id user)), st))"

text \<open>\<open>POST /check-blob\<close>.\<close>

definition check_blob :: "string \<Rightarrow> server \<Rightarrow> reply \<times> server" where
  "check_blob name st =
     (case getUser (DB st) name of
        None \<Rightarrow> (ErrorReply ''User not found'' 404, st)
      | Some user \<Rightarrow>
          (HasBlobReply
             (case getUserBlobReference (DB st) (user_id user) of
                Some (Some key, _) \<Rightarrow> key \<noteq> []
              | _ \<Rightarrow> False), st))"

section \<open>The global \<open>crypto\<close> object\<close>

text \<open>
  The client's \<open>crypto.ts\<close> works on the platform's global \<open>crypto\<close>: its random
  source and \<open>crypto.subtle\<close>. The random source is a sequence of bytes of which
  \<open>drawn\<close> have been handed out; HKDF with SHA-256 and AES-GCM are functions on byte
  arrays (input keying material, salt, info and length in bits; key, iv and data), with
  decryption answering nothing when the authentication tag does not match. The checks
  that \<open>importKey\<close>, \<open>deriveKey\<close>, \<open>encrypt\<close> and \<open>decrypt\<close> make on their
  arguments before computing follow the Web Cryptography standard.
\<close>

record Crypto =
  entropy :: "nat \<Rightarrow> 8 word"
  drawn :: nat
  hkdf_sha256 :: "bytes \<Rightarrow> bytes \<Rightarrow> bytes \<Rightarrow> nat \<Rightarrow> bytes"
  aes_gcm_encrypt :: "bytes \<Rightarrow> bytes \<Rightarrow> bytes \<Rightarrow> bytes"
  aes_gcm_decrypt :: "bytes \<Rightarrow> bytes \<Rightarrow> bytes \<Rightarrow> bytes option"

text \<open>\<open>crypto.getRandomValues(new Uint8Array(n))\<close>.\<close>

definition getRandomValues :: "nat \<Rightarrow> Crypto \<Rightarrow> bytes \<times> Crypto" where
  "getRandomValues n c = (map (entropy c) [drawn c ..< drawn c + n], c\<lparr>drawn := drawn c + n\<rparr>)"

datatype key_algorithm = HKDF | AES_GCM nat

datatype key_usage = use_deriveKey | use_deriveBits | use_encrypt | use_decrypt

record CryptoKey =
  algorithm :: key_algorithm
  extractable :: bool
  usages :: "key_usage list"
  key_bits :: bytes

text \<open>\<open>crypto.subtle.importKey("raw", keyData, algorithm, extractable, usages)\<close>. Raw
  key material for HKDF may have any length; the key must not be extractable and may
  only be used for derivation. A raw AES key must have 128, 192 or 256 bits.\<close>

definition importKey :: "bytes \<Rightarrow> key_algorithm \<Rightarrow> bool \<Rightarrow> key_usage list \<Rightarrow> js_error + CryptoKey" where
  "importKey keyData alg ext us =
     (case alg of
        HKDF \<Rightarrow>
          if \<not> set us \<subseteq> {use_deriveKey, use_deriveBits} then Inl SyntaxError
          else if ext then Inl SyntaxError
          else if us = [] then Inl SyntaxError
          else Inr \<lparr>algorithm = HKDF, extractable = False, usages = us, key_bits = keyData\<rparr>
      | AES_GCM n \<Rightarrow>
          if \<not> set us \<subseteq> {use_encrypt, use_decrypt} then Inl SyntaxError
          else if length keyData * 8 \<notin> {128, 192, 256} then Inl DataError
          else if us = [] then Inl SyntaxError
          else Inr \<lparr>algorithm = AES_GCM (length keyData * 8), extractable = ext, usages = us,
                    key_bits = keyData\<rparr>)"

text \<open>\<open>crypto.subtle.deriveKey({name: "HKDF", hash: "SHA-256", salt, info}, baseKey,
  {name: "AES-GCM", length}, extractable, usages)\<close>.\<close>

definition deriveKey ::
  "Crypto \<Rightarrow> bytes \<Rightarrow> bytes \<Rightarrow> CryptoKey \<Rightarrow> nat \<Rightarrow> bool \<Rightarrow> key_usage list \<Rightarrow> js_error + CryptoKey" where
  "deriveKey c salt info baseKey len ext us =
     (if algorithm baseKey \<noteq> HKDF then Inl InvalidAccessError
      else if use_deriveKey \<notin> set (usages baseKey) then Inl InvalidAccessError
      else if len \<notin> {128, 192, 256} then Inl OperationError
      else if \<not> set us \<subseteq> {use_encrypt, use_decrypt} then Inl SyntaxError
      else if us = [] then Inl SyntaxError
      else Inr \<lparr>algorithm = AES_GCM len, extractable = ext, usages = us,
                key_bits = hkdf_sha256 c (key_bits baseKey) salt info len\<rparr>)"

text \<open>\<open>crypto.subtle.encrypt({name: "AES-GCM", iv}, key, data)\<close> and
  \<open>crypto.subtle.decrypt\<close>.\<close>

definition subtle_encrypt :: "Crypto \<Rightarrow> bytes \<Rightarrow> CryptoKey \<Rightarrow> bytes \<Rightarrow> js_error + bytes" where
  "subtle_encrypt c iv key data =
     (case algorithm key of
        HKDF \<Rightarrow> Inl InvalidAccessError
      | AES_GCM n \<Rightarrow>
          if use_encrypt \<notin> set (usages key) then Inl InvalidAccessError
          else Inr (aes_gcm_encrypt c (key_bits key) iv data))"

definition subtle_decrypt :: "Crypto \<Rightarrow> bytes \<Rightarrow> CryptoKey \<Rightarrow> bytes \<Rightarrow> js_error + bytes" where
  "subtle_decrypt c iv key data =
     (case algorithm key of
        HKDF \<Rightarrow> Inl InvalidAccessError
      | AES_GCM n \<Rightarrow>
          if use_decrypt \<notin> set (usages key) then Inl InvalidAccessError
          else (case aes_gcm_decrypt c (key_bits key) iv data of
                  None \<Rightarrow> Inl OperationError
                | Some plain \<Rightarrow> Inr plain))"

section \<open>Crypto utilities (client \<open>crypto.ts\<close>)\<close>

definition generatePrfSalt :: "Crypto \<Rightarrow> bytes \<times> Crypto" where
  "generatePrfSalt c = getRandomValues 32 c"

definition generateNonce :: "Crypto \<Rightarrow> bytes \<times> Crypto" where
  "generateNonce c = getRandomValues 12 c"

text \<open>\<open>btoa(String.fromCharCode(...array))\<close> followed by
  \<open>base64.replace(/\+/g, "-").replace(/\//g, "_").replace(/=/g, "")\<close>; \<open>limit\<close> is
  the bound of the engine it runs on.\<close>

definition uint8ArrayToBase64Url :: "nat \<Rightarrow> bytes \<Rightarrow> js_error + string" where
  "uint8ArrayToBase64Url limit array =
     (case btoa_spread limit array of
        Inl e \<Rightarrow> Inl e
      | Inr base64 \<Rightarrow>
          Inr (filter (\<lambda>c. c \<noteq> CHR ''='')
                 (map (\<lambda>c. if c = CHR ''/'' then CHR ''_'' else c)
                    (map (\<lambda>c. if c = CHR ''+'' then CHR ''-'' else c) base64))))"

definition base64UrlToUint8Array :: "string \<Rightarrow> js_error + bytes" where
  "base64UrlToUint8Array base64url =
     (let base64 = map (\<lambda>c. if c = CHR ''_'' then CHR ''/'' else c)
                     (map (\<lambda>c. if c = CHR ''-'' then CHR ''+'' else c) base64url);
          padded = base64 @ replicate ((4 - length base64 mod 4) mod 4) CHR ''=''
      in atob padded)"

text \<open>\<open>deriveEncryptionKey(prfOutput, salt = new Uint8Array(32))\<close>: an omitted salt is
  32 zero bytes.\<close>

definition deriveEncryptionKey :: "Crypto \<Rightarrow> bytes \<Rightarrow> bytes option \<Rightarrow> js_error + CryptoKey" where
  "deriveEncryptionKey c prfOutput salt_arg =
     (let salt = (case salt_arg of None \<Rightarrow> replicate 32 0 | Some s \<Rightarrow> s) in
      case importKey prfOutput HKDF False [use_deriveKey] of
        Inl e \<Rightarrow> Inl e
      | Inr inputKeyMaterial \<Rightarrow>
          deriveKey c salt [] inputKeyMaterial 256 False [use_encrypt, use_decrypt])"

definition encryptData :: "Crypto \<Rightarrow> CryptoKey \<Rightarrow> bytes \<Rightarrow> bytes \<Rightarrow> js_error + bytes" where
  "encryptData c key data nonce = subtle_encrypt c nonce key data"

definition decryptData :: "Crypto \<Rightarrow> CryptoKey \<Rightarrow> bytes \<Rightarrow> bytes \<Rightarrow> js_error + bytes" where
  "decryptData c key ciphertext nonce = subtle_decrypt c nonce key ciphertext"

section \<open>The client (\<open>App.tsx\<close>)\<close>

text \<open>
  The React state of \<open>App\<close>. A message shown to the user is a literal text or a
  template that ends in the text of a caught exception.
\<close>

datatype ui_text = Plain string | WithError string js_error

record AppState =
  ui_username :: string
  ui_message :: ui_text
  isAuthenticated :: bool
  prfOutput :: "bytes option"
  hasBlob :: bool
  decryptedBlob :: "bytes option"
  userMessage :: string
  encryptedMessage :: string
  decryptedMessage :: string
  prfSalt :: "bytes option"

text \<open>
  What the client meets outside its own code: the browser side of the WebAuthn library
  with the authenticator behind it (given the options and the PRF input
  \<open>eval.first\<close>, it answers a response or throws), the platform's text encoder and
  decoder, and the largest number of arguments that the browser's engine takes in one
  call.
\<close>

record platform =
  startRegistration ::
    "PublicKeyCredentialCreationOptionsJSON \<Rightarrow> bytes \<Rightarrow> js_error + RegistrationResponseJSON"
  startAuthentication ::
    "PublicKeyCredentialRequestOptionsJSON \<Rightarrow> bytes \<Rightarrow> js_error + AuthenticationResponseJSON"
  encodeText :: "string \<Rightarrow> bytes"
  decodeText :: "bytes \<Rightarrow> string"
  max_arguments :: nat

text \<open>What the server meets outside its own code while it serves one handler of the
  client: the challenge its library draws next, and the library's verification
  functions.\<close>

record library =
  next_challenge :: string
  verifyRegistrationResponse :: registration_verifier
  verifyAuthenticationResponse :: authentication_verifier

record world =
  app :: AppState
  crypto :: Crypto
  srv :: server

text \<open>\<open>String.prototype.trim\<close> on the white space that an 8-bit character can be.\<close>

definition js_whitespace :: "char \<Rightarrow> bool" where
  "js_whitespace c = ((of_char c :: nat) \<in> {9, 10, 11, 12, 13, 32, 160})"

definition trim :: "string \<Rightarrow> string" where
  "trim s = rev (dropWhile js_whitespace (rev (dropWhile js_whitespace s)))"

text \<open>
  What the client reads from an answer of the server: \<open>response.ok\<close>, whether the
  body is JSON at all (\<open>response.json()\<close> throws otherwise), and the properties
  \<open>verified\<close>, \<open>prfSalt\<close>, \<open>hasBlob\<close> and \<open>success\<close> of the body, each
  tested for truthiness, so that a missing property counts as false.
\<close>

definition ok :: "reply \<Rightarrow> bool" where
  "ok r = (case r of
             ErrorReply text status \<Rightarrow> 200 \<le> status \<and> status < 300
           | ThrownReply e status \<Rightarrow> 200 \<le> status \<and> status < 300
           | InternalServerError e \<Rightarrow> False
           | _ \<Rightarrow> True)"

definition is_json :: "reply \<Rightarrow> bool" where
  "is_json r = (case r of InternalServerError e \<Rightarrow> False | _ \<Rightarrow> True)"

definition json_verified :: "reply \<Rightarrow> bool" where
  "json_verified r = (case r of VerifiedReply v u \<Rightarrow> v | _ \<Rightarrow> False)"

definition json_prfSalt :: "reply \<Rightarrow> string option" where
  "json_prfSalt r = (case r of PrfSaltReply (Some s) \<Rightarrow> (if s = [] then None else Some s)
                     | _ \<Rightarrow> None)"

definition json_hasBlob :: "reply \<Rightarrow> bool" where
  "json_hasBlob r = (case r of HasBlobReply h \<Rightarrow> h | _ \<Rightarrow> False)"

definition json_success :: "reply \<Rightarrow> bool" where
  "json_success r = (case r of StoreBlobReply k \<Rightarrow> True | SuccessReply \<Rightarrow> True | _ \<Rightarrow> False)"

definition creation_options :: "reply \<Rightarrow> PublicKeyCredentialCreationOptionsJSON option" where
  "creation_options r = (case r of CreationOptionsReply options \<Rightarrow> Some options | _ \<Rightarrow> None)"

definition request_options :: "reply \<Rightarrow> PublicKeyCredentialRequestOptionsJSON option" where
  "request_options r = (case r of RequestOptionsReply options \<Rightarrow> Some options | _ \<Rightarrow> None)"

definition retrieved_blob :: "reply \<Rightarrow> (string \<times> string option) option" where
  "retrieved_blob r = (case r of RetrieveBlobReply b n \<Rightarrow> Some (b, n) | _ \<Rightarrow> None)"

text \<open>\<open>throw new Error(error.error || fallback)\<close> for an answer that is not
  \<open>ok\<close>.\<close>

definition not_ok_error :: "reply \<Rightarrow> string \<Rightarrow> js_error" where
  "not_ok_error r fallback =
     (case r of
        ErrorReply text status \<Rightarrow> ClientError (if text = [] then fallback else text)
      | ThrownReply e status \<Rightarrow> Rethrown e
      | InternalServerError e \<Rightarrow> JSONParseError
      | _ \<Rightarrow> ClientError fallback)"

text \<open>The template \<open>`Failed to store message: ${result.error}`\<close>.\<close>

definition store_failure_text :: "reply \<Rightarrow> ui_text" where
  "store_failure_text r =
     (case r of
        ErrorReply text status \<Rightarrow> Plain (''Failed to store message: '' @ text)
      | ThrownReply e status \<Rightarrow> WithError ''Failed to store message: '' e
      | _ \<Rightarrow> Plain ''Failed to store message: undefined'')"

definition handleRegister :: "library \<Rightarrow> platform \<Rightarrow> world \<Rightarrow> world" where
  "handleRegister lib pf w =
     (let a0 = (app w)\<lparr>ui_message := Plain ''Starting registration...''\<rparr>;
          (currentPrfSalt, c1) =
            (case prfSalt a0 of
               Some s \<Rightarrow> (s, crypto w)
             | None \<Rightarrow> generatePrfSalt (crypto w));
          a1 = a0\<lparr>prfSalt := Some currentPrfSalt\<rparr>;
          (optionsResponse, s1) =
            generate_registration_options (next_challenge lib) (ui_username a1) (srv w)
      in if \<not> ok optionsResponse
         then \<lparr>app = a1\<lparr>ui_message := WithError ''Registration error: ''
                          (not_ok_error optionsResponse ''Failed to get registration options'')\<rparr>,
               crypto = c1, srv = s1\<rparr>
         else
           (case creation_options optionsResponse of
              None \<Rightarrow>
                \<lparr>app = a1\<lparr>ui_message := WithError ''Registration error: '' TypeError\<rparr>,
                 crypto = c1, srv = s1\<rparr>
            | Some optionsJSON \<Rightarrow>
                (case startRegistration pf optionsJSON currentPrfSalt of
                   Inl e \<Rightarrow>
                     \<lparr>app = a1\<lparr>ui_message := WithError ''Registration error: '' e\<rparr>,
                      crypto = c1, srv = s1\<rparr>
                 | Inr registrationResponse \<Rightarrow>
                     (let (verification, s2) =
                            verify_registration (verifyRegistrationResponse lib) (ui_username a1)
                              registrationResponse s1
                      in if json_verified verification
                         then
                           (case uint8ArrayToBase64Url (max_arguments pf) currentPrfSalt of
                              Inl e \<Rightarrow>
                                \<lparr>app = a1\<lparr>ui_message := WithError ''Registration error: '' e\<rparr>,
                                 crypto = c1, srv = s2\<rparr>
                            | Inr prfSaltBase64 \<Rightarrow>
                                (let (saved, s3) =
                                       save_prf_salt (ui_username a1) prfSaltBase64 s2
                                 in \<lparr>app = a1\<lparr>ui_message := Plain
                                        (''Registration successful! Your encryption salt has been ''
                                         @ ''saved. You can now authenticate and encrypt data.'')\<rparr>,
                                     crypto = c1, srv = s3\<rparr>))
                         else
                           \<lparr>app = a1\<lparr>ui_message :=
                                     Plain ''Registration failed. Please try again.''\<rparr>,
                            crypto = c1, srv = s2\<rparr>))))"

text \<open>The salt that \<open>handleAuthenticate\<close> uses: the stored one when
  \<open>/get-prf-salt\<close> answers one, a newly drawn one otherwise. It is put into the React
  state and nowhere else.\<close>

definition currentPrfSalt_for_login :: "world \<Rightarrow> js_error + (bytes \<times> Crypto)" where
  "currentPrfSalt_for_login w =
     (let saltData = fst (get_prf_salt (ui_username (app w)) (srv w)) in
      if \<not> is_json saltData then Inl JSONParseError
      else
        (case json_prfSalt saltData of
           Some stored \<Rightarrow>
             (case base64UrlToUint8Array stored of
                Inl e \<Rightarrow> Inl e
              | Inr s \<Rightarrow> Inr (s, crypto w))
         | None \<Rightarrow> Inr (generatePrfSalt (crypto w))))"

text \<open>The part of \<open>handleAuthenticate\<close> that follows a verified answer.\<close>

definition authenticated :: "AuthenticationResponseJSON \<Rightarrow> AppState \<Rightarrow> server \<Rightarrow> AppState" where
  "authenticated authResponse a s =
     (let a1 = a\<lparr>isAuthenticated := True\<rparr> in
      case auth_prf_first authResponse of
        Some prfResult \<Rightarrow>
          (let a2 = a1\<lparr>prfOutput := Some prfResult\<rparr> in
           if json_hasBlob (fst (check_blob (ui_username a) s))
           then a2\<lparr>hasBlob := True,
                   ui_message := Plain (''Successfully authenticated as '' @ ui_username a
                     @ ''! You have an encrypted message stored. ''
                     @ ''Click '' @ [CHR 0x22] @ ''Retrieve & Decrypt'' @ [CHR 0x22]
                     @ '' to view it.'')\<rparr>
           else a2\<lparr>ui_message := Plain (''Successfully authenticated as '' @ ui_username a
                     @ ''! PRF encryption key available.'')\<rparr>)
      | None \<Rightarrow>
          a1\<lparr>ui_message := Plain (''Successfully authenticated as '' @ ui_username a
                 @ ''! (Note: PRF extension not available)'')\<rparr>)"

definition handleAuthenticate :: "library \<Rightarrow> platform \<Rightarrow> world \<Rightarrow> world" where
  "handleAuthenticate lib pf w =
     (let a0 = (app w)\<lparr>ui_message := Plain ''Starting authentication...''\<rparr> in
      case currentPrfSalt_for_login w of
        Inl e \<Rightarrow> w\<lparr>app := a0\<lparr>ui_message := WithError ''Authentication error: '' e\<rparr>\<rparr>
      | Inr (currentPrfSalt, c1) \<Rightarrow>
          (let a1 = a0\<lparr>prfSalt := Some currentPrfSalt\<rparr>;
               (optionsResponse, s1) =
                 generate_authentication_options (next_challenge lib) (ui_username a1) (srv w)
           in if \<not> ok optionsResponse
              then \<lparr>app = a1\<lparr>ui_message := WithError ''Authentication error: ''
                       (not_ok_error optionsResponse ''Failed to get authentication options'')\<rparr>,
                    crypto = c1, srv = s1\<rparr>
              else
                (case request_options optionsResponse of
                   None \<Rightarrow>
                     \<lparr>app = a1\<lparr>ui_message := WithError ''Authentication error: '' TypeError\<rparr>,
                      crypto = c1, srv = s1\<rparr>
                 | Some optionsJSON \<Rightarrow>
                     (case startAuthentication pf optionsJSON currentPrfSalt of
                        Inl e \<Rightarrow>
                          \<lparr>app = a1\<lparr>ui_message := WithError ''Authentication error: '' e\<rparr>,
                           crypto = c1, srv = s1\<rparr>
                      | Inr authResponse \<Rightarrow>
                          (let (verification, s2) =
                                 verify_authentication (verifyAuthenticationResponse lib)
                                   (ui_username a1) authResponse s1
                           in if json_verified verification
                              then \<lparr>app = authenticated authResponse a1 s2, crypto = c1,
                                    srv = s2\<rparr>
                              else \<lparr>app = a1\<lparr>ui_message :=
                                              Plain ''Authentication failed. Please try again.''\<rparr>,
                                    crypto = c1, srv = s2\<rparr>)))))"

definition handleLogout :: "world \<Rightarrow> world" where
  "handleLogout w =
     w\<lparr>app := (app w)\<lparr>isAuthenticated := False, prfOutput := None, hasBlob := False,
                       decryptedBlob := None, userMessage := [], encryptedMessage := [],
                       decryptedMessage := [], prfSalt := None, ui_message := Plain []\<rparr>\<rparr>"

text \<open>The encryption in \<open>handleEncryptAndStore\<close> and the decryption in
  \<open>handleRetrieveAndDecrypt\<close>: both derive the key from the PRF output alone, leaving
  the salt argument of \<open>deriveEncryptionKey\<close> to its default. In
  \<open>handleEncryptAndStore\<close> the ciphertext and the nonce are encoded, each through
  \<open>String.fromCharCode(...)\<close>, before \<open>/store-blob\<close> is requested; an exception
  there ends the handler in its \<open>catch\<close>.\<close>

definition encrypt_message :: "Crypto \<Rightarrow> bytes \<Rightarrow> bytes \<Rightarrow> bytes \<Rightarrow> js_error + bytes" where
  "encrypt_message c prf messageBytes nonce =
     (case deriveEncryptionKey c prf None of
        Inl e \<Rightarrow> Inl e
      | Inr encryptionKey \<Rightarrow> encryptData c encryptionKey messageBytes nonce)"

definition decrypt_message :: "Crypto \<Rightarrow> bytes \<Rightarrow> string \<Rightarrow> string option \<Rightarrow> js_error + bytes" where
  "decrypt_message c prf encryptedBlob nonce =
     (case atob encryptedBlob of
        Inl e \<Rightarrow> Inl e
      | Inr encryptedData \<Rightarrow>
          (case (case nonce of None \<Rightarrow> Inl TypeError | Some n \<Rightarrow> base64UrlToUint8Array n) of
             Inl e \<Rightarrow> Inl e
           | Inr nonceArray \<Rightarrow>
               (case deriveEncryptionKey c prf None of
                  Inl e \<Rightarrow> Inl e
                | Inr encryptionKey \<Rightarrow> decryptData c encryptionKey encryptedData nonceArray)))"

definition handleEncryptAndStore :: "platform \<Rightarrow> world \<Rightarrow> world" where
  "handleEncryptAndStore pf w =
     (let a = app w in
      case prfOutput a of
        None \<Rightarrow>
          w\<lparr>app := a\<lparr>ui_message :=
                      Plain ''Please authenticate first to get PRF encryption key.''\<rparr>\<rparr>
      | Some prf \<Rightarrow>
          if trim (userMessage a) = []
          then w\<lparr>app := a\<lparr>ui_message := Plain ''Please enter a message to encrypt.''\<rparr>\<rparr>
          else
            (let a0 = a\<lparr>ui_message := Plain ''Encrypting your message...''\<rparr>;
                 messageBytes = encodeText pf (userMessage a);
                 (nonce, c1) = generateNonce (crypto w)
             in case encrypt_message c1 prf messageBytes nonce of
                  Inl e \<Rightarrow>
                    \<lparr>app = a0\<lparr>ui_message := WithError ''Encryption error: '' e\<rparr>,
                     crypto = c1, srv = srv w\<rparr>
                | Inr encryptedData \<Rightarrow>
                    (case (case btoa_spread (max_arguments pf) encryptedData of
                             Inl e \<Rightarrow> Inl e
                           | Inr encryptedBase64 \<Rightarrow>
                               (case uint8ArrayToBase64Url (max_arguments pf) nonce of
                                  Inl e \<Rightarrow> Inl e
                                | Inr nonceBase64 \<Rightarrow> Inr (encryptedBase64, nonceBase64))) of
                       Inl e \<Rightarrow>
                         \<lparr>app = a0\<lparr>ui_message := WithError ''Encryption error: '' e\<rparr>,
                          crypto = c1, srv = srv w\<rparr>
                     | Inr (encryptedBase64, nonceBase64) \<Rightarrow>
                         (let a1 = a0\<lparr>encryptedMessage := encryptedBase64\<rparr>;
                              (result, s1) =
                                store_blob (ui_username a) encryptedBase64 nonceBase64 (srv w)
                          in if \<not> is_json result
                             then \<lparr>app = a1\<lparr>ui_message :=
                                             WithError ''Encryption error: '' JSONParseError\<rparr>,
                                   crypto = c1, srv = s1\<rparr>
                             else if json_success result
                             then \<lparr>app = a1\<lparr>hasBlob := True, ui_message :=
                                        Plain ''Successfully encrypted and stored message in R2!''\<rparr>,
                                   crypto = c1, srv = s1\<rparr>
                             else \<lparr>app = a1\<lparr>ui_message := store_failure_text result\<rparr>,
                                   crypto = c1, srv = s1\<rparr>))))"

definition handleRetrieveAndDecrypt :: "platform \<Rightarrow> world \<Rightarrow> world" where
  "handleRetrieveAndDecrypt pf w =
     (let a = app w in
      case prfOutput a of
        None \<Rightarrow>
          w\<lparr>app := a\<lparr>ui_message :=
                      Plain ''Please authenticate first to get PRF decryption key.''\<rparr>\<rparr>
      | Some prf \<Rightarrow>
          (let a0 = a\<lparr>ui_message := Plain ''Retrieving and decrypting message...''\<rparr>;
               response = fst (retrieve_blob (ui_username a) (srv w))
           in case (if \<not> ok response
                    then Inl (not_ok_error response ''Failed to retrieve message'')
                    else (case retrieved_blob response of
                            None \<Rightarrow> Inl TypeError
                          | Some (encryptedBlob, nonce) \<Rightarrow>
                              decrypt_message (crypto w) prf encryptedBlob nonce)) of
                Inl e \<Rightarrow> w\<lparr>app := a0\<lparr>ui_message := WithError ''Decryption error: '' e\<rparr>\<rparr>
              | Inr decryptedData \<Rightarrow>
                  w\<lparr>app := a0\<lparr>decryptedBlob := Some decryptedData,
                               decryptedMessage := decodeText pf decryptedData,
                               ui_message := Plain ''Successfully decrypted message!''\<rparr>\<rparr>))"

section \<open>Concrete instances\<close>

text \<open>
  Two stand-ins for the library's verification functions. They make the checks the
  library makes on the modelled fields: the signed challenge must be the expected one
  (otherwise the library throws), and the assertion must validate under the stored public
  key. The authentication stand-in compares the signature counters as the library does:
  unless both are zero, it throws when the counter of the response is not above the
  counter of the credential it was given, with the text the library uses; and it reports
  the counter of the response as the new counter.
\<close>

definition demo_verifyRegistrationResponse :: registration_verifier where
  "demo_verifyRegistrationResponse response expectedChallenge expectedOrigin expectedRPID =
     (if reg_challenge response \<noteq> expectedChallenge
      then Inl (LibraryError ''Unexpected registration response challenge'')
      else Inr \<lparr>reg_verified = True,
                reg_info = Some \<lparr>credential = \<lparr>credential_id = reg_id response,
                                                credential_publicKey = reg_publicKey response,
                                                credential_counter = reg_counter response\<rparr>,
                                  credentialDeviceType = singleDevice,
                                  credentialBackedUp = False\<rparr>\<rparr>)"

definition counter_error :: "nat \<Rightarrow> nat \<Rightarrow> js_error" where
  "counter_error reported stored =
     LibraryError (''Response counter value '' @ toString reported
                   @ '' was lower than expected '' @ toString stored)"

definition demo_verifyAuthenticationResponse :: authentication_verifier where
  "demo_verifyAuthenticationResponse response expectedChallenge expectedOrigin
       expectedRPID cred =
     (if auth_challenge response \<noteq> expectedChallenge
      then Inl (LibraryError ''Unexpected authentication response challenge'')
      else if (auth_counter response > 0 \<or> wc_counter cred > 0)
                \<and> auth_counter response \<le> wc_counter cred
      then Inl (counter_error (auth_counter response) (wc_counter cred))
      else Inr \<lparr>auth_verified = (auth_signed_by response = wc_publicKey cred),
                newCounter = auth_counter response\<rparr>)"

text \<open>A database with two users. Alice has one registered authenticator with signature
  counter 5, a stored salt and no blob; Bob has one authenticator and no salt. The
  worker's engine takes 100000 arguments in a call.\<close>

definition alice :: User where
  "alice = \<lparr>user_id = 1, username = ''alice'', prf_salt = Some ''c2FsdC1vbmU'',
             encrypted_blob_key = None, blob_nonce = None\<rparr>"

definition bob :: User where
  "bob = \<lparr>user_id = 2, username = ''bob'', prf_salt = None,
           encrypted_blob_key = None, blob_nonce = None\<rparr>"

definition alice_key :: passkey_row where
  "alice_key = \<lparr>cred_id = ''cred-A'', cred_public_key = [1], internal_user_id = 1,
       webAuthn_user_id = ''1'', row_counter = 5, backup_eligible = False,
       backup_status = False, row_transports = Some ''internal''\<rparr>"

definition bob_key :: passkey_row where
  "bob_key = \<lparr>cred_id = ''cred-B'', cred_public_key = [2], internal_user_id = 2,
       webAuthn_user_id = ''2'', row_counter = 0, backup_eligible = True,
       backup_status = True, row_transports = None\<rparr>"

definition server0 :: server where
  "server0 = \<lparr>challenges = Map.empty,
               DB = \<lparr>users = [alice, bob], passkeys = [alice_key, bob_key]\<rparr>,
               R2_BUCKET = Map.empty,
               worker_max_arguments = 100000\<rparr>"

text \<open>Alice has begun to register a second authenticator: challenge \<open>c-reg\<close> is
  pending.\<close>

definition server1 :: server where
  "server1 = snd (generate_registration_options ''c-reg'' ''alice'' server0)"

text \<open>An assertion by Alice's authenticator over challenge \<open>ch\<close> with counter \<open>n\<close>,
  one by Bob's, and an attestation by a new authenticator of Alice's.\<close>

definition alice_assertion :: "string \<Rightarrow> nat \<Rightarrow> AuthenticationResponseJSON" where
  "alice_assertion ch n =
     \<lparr>auth_id = ''cred-A'', auth_challenge = ch, auth_signed_by = [1], auth_counter = n,
      auth_prf_first = None\<rparr>"

definition bob_assertion :: "string \<Rightarrow> nat \<Rightarrow> AuthenticationResponseJSON" where
  "bob_assertion ch n =
     \<lparr>auth_id = ''cred-B'', auth_challenge = ch, auth_signed_by = [2], auth_counter = n,
      auth_prf_first = None\<rparr>"

definition alice_attestation :: "string \<Rightarrow> RegistrationResponseJSON" where
  "alice_attestation ch =
     \<lparr>reg_id = ''cred-A2'', reg_userHandle = None, reg_transports = Some [''internal'', ''hybrid''],
      reg_challenge = ch, reg_publicKey = [3], reg_counter = 0\<rparr>"

text \<open>Alice has begun to authenticate: challenge \<open>c-auth\<close> is pending. A forged
  assertion names her credential but does not validate under its public key.\<close>

definition server2 :: server where
  "server2 = snd (generate_authentication_options ''c-auth'' ''alice'' server0)"

definition forged_assertion :: "string \<Rightarrow> nat \<Rightarrow> AuthenticationResponseJSON" where
  "forged_assertion ch n =
     \<lparr>auth_id = ''cred-A'', auth_challenge = ch, auth_signed_by = [9], auth_counter = n,
      auth_prf_first = None\<rparr>"

text \<open>The salt column of the row that the server finds for a username (null when there
  is no such row).\<close>

definition salt_of :: "server \<Rightarrow> string \<Rightarrow> string option" where
  "salt_of st name = Option.bind (getUser (DB st) name) prf_salt"


text \<open>A stand-in for the platform's \<open>crypto\<close>, used only to evaluate the client on
  concrete inputs: a fixed byte sequence as random source, a key derivation that takes
  the first bytes of its concatenated inputs, and a cipher that appends a 16-byte tag made
  of key and iv and checks it on decryption.\<close>

definition demo_crypto :: Crypto where
  "demo_crypto =
     \<lparr>entropy = (\<lambda>i. of_nat (7 * i + 3)),
      drawn = 0,
      hkdf_sha256 = (\<lambda>ikm salt info len. take (len div 8) (ikm @ salt @ info @ replicate (len div 8) 0)),
      aes_gcm_encrypt = (\<lambda>key iv data. data @ take 16 (key @ iv @ replicate 16 0)),
      aes_gcm_decrypt = (\<lambda>key iv data.
         if 16 \<le> length data \<and> drop (length data - 16) data = take 16 (key @ iv @ replicate 16 0)
         then Some (take (length data - 16) data) else None)\<rparr>"

text \<open>A stand-in for what the client meets: an authenticator of Alice's that attests a
  new credential, an authenticator of Bob's that signs the challenge it is given, reports
  counter 0 and evaluates the PRF on the salt it is given, and a text codec for ASCII.\<close>

definition demo_platform :: platform where
  "demo_platform =
     \<lparr>startRegistration = (\<lambda>options salt. Inr (alice_attestation (co_challenge options))),
      startAuthentication = (\<lambda>options salt.
         Inr \<lparr>auth_id = ''cred-B'', auth_challenge = ro_challenge options, auth_signed_by = [2],
              auth_counter = 0, auth_prf_first = Some (map (\<lambda>b. b + 1) salt)\<rparr>),
      encodeText = string_bytes,
      decodeText = map (\<lambda>b. char_of (unat b)),
      max_arguments = 100000\<rparr>"

definition demo_library :: "string \<Rightarrow> library" where
  "demo_library ch =
     \<lparr>next_challenge = ch,
      verifyRegistrationResponse = demo_verifyRegistrationResponse,
      verifyAuthenticationResponse = demo_verifyAuthenticationResponse\<rparr>"

text \<open>The React state of a newly loaded page, with a username typed in.\<close>

definition fresh_app :: "string \<Rightarrow> AppState" where
  "fresh_app name =
     \<lparr>ui_username = name, ui_message = Plain [], isAuthenticated = False, prfOutput = None,
      hasBlob = False, decryptedBlob = None, userMessage = [], encryptedMessage = [],
      decryptedMessage = [], prfSalt = None\<rparr>"

text \<open>Bob, who has a registered authenticator and no stored salt, logs in, logs out and
  logs in again.\<close>

definition bob_world :: world where
  "bob_world = \<lparr>app = fresh_app ''bob'', crypto = demo_crypto, srv = server0\<rparr>"

definition bob_first_login :: world where
  "bob_first_login = handleAuthenticate (demo_library ''c-one'') demo_platform bob_world"

definition bob_second_login :: world where
  "bob_second_login =
     handleAuthenticate (demo_library ''c-two'') demo_platform (handleLogout bob_first_login)"

text \<open>The six-bit groups of a byte sequence and the padding of its encoding, for the
  proofs about \<open>btoa\<close> and \<open>atob\<close>.\<close>


fun b64_sextets :: "nat list \<Rightarrow> nat list" where
  "b64_sextets [] = []"
| "b64_sextets [a] = [a div 4, (a mod 4) * 16]"
| "b64_sextets [a, b] = [a div 4, (a mod 4) * 16 + b div 16, (b mod 16) * 4]"
| "b64_sextets (a # b # c # rest) =
     [a div 4, (a mod 4) * 16 + b div 16, (b mod 16) * 4 + c div 64, c mod 64] @ b64_sextets rest"

definition b64_padding :: "nat \<Rightarrow> string" where
  "b64_padding n = replicate ((3 - n mod 3) mod 3) CHR ''=''"

text \<open>The text that \<open>uint8ArrayToBase64Url\<close> answers when it answers one.\<close>

definition base64url :: "bytes \<Rightarrow> string" where
  "base64url bs =
     filter (\<lambda>c. c \<noteq> CHR ''='')
       (map (\<lambda>c. if c = CHR ''/'' then CHR ''_'' else c)
          (map (\<lambda>c. if c = CHR ''+'' then CHR ''-'' else c) (btoa bs)))"

text \<open>The user types into the message field: \<open>setUserMessage(e.target.value)\<close>.\<close>

definition type_message :: "string \<Rightarrow> world \<Rightarrow> world" where
  "type_message text w = w\<lparr>app := (app w)\<lparr>userMessage := text\<rparr>\<rparr>"

text \<open>Alice's page after a login that produced a PRF output.\<close>

definition alice_session :: world where
  "alice_session =
     \<lparr>app = (fresh_app ''alice'')\<lparr>isAuthenticated := True, prfOutput := Some (replicate 32 7)\<rparr>,
      crypto = demo_crypto, srv = server0\<rparr>"

text \<open>Alice opens the page anew and registers another authenticator.\<close>

definition alice_world :: world where
  "alice_world = \<lparr>app = fresh_app ''alice'', crypto = demo_crypto, srv = server0\<rparr>"

text \<open>The ciphertext that \<open>handleEncryptAndStore\<close> produces for the bytes of a message
  when the session holds the PRF output \<open>prf\<close> and the \<open>crypto\<close> object is \<open>c\<close>:
  the key is derived with the default salt, the nonce is the next one drawn.\<close>

definition encrypted_under :: "Crypto \<Rightarrow> bytes \<Rightarrow> bytes \<Rightarrow> bytes" where
  "encrypted_under c prf messageBytes =
     aes_gcm_encrypt c (hkdf_sha256 c prf (replicate 32 0) [] 256) (fst (generateNonce c))
       messageBytes"




section \<open>Unfolding sets and basic facts\<close>

lemmas db_defs = getUser_def getUserById_def createUser_def passkey_of_row_def savePasskey_def
  getUserPasskeys_def getPasskeyById_def updatePasskeyCounter_def saveUserBlobReference_def
  getUserBlobReference_def saveUserPrfSalt_def getUserPrfSalt_def next_user_id_def

lemmas endpoint_defs = generate_registration_options_def verify_registration_def
  generate_authentication_options_def verify_authentication_def store_blob_def retrieve_blob_def
  save_prf_salt_def get_prf_salt_def check_blob_def descriptor_of_def rpID_def origin_def

lemmas demo_defs = demo_verifyRegistrationResponse_def demo_verifyAuthenticationResponse_def
  alice_def bob_def alice_key_def bob_key_def server0_def alice_assertion_def bob_assertion_def
  alice_attestation_def forged_assertion_def

lemmas client_defs = handleAuthenticate_def handleLogout_def currentPrfSalt_for_login_def
  authenticated_def ok_def is_json_def json_verified_def json_prfSalt_def json_hasBlob_def
  json_success_def creation_options_def request_options_def retrieved_blob_def
  generatePrfSalt_def generateNonce_def getRandomValues_def

lemma upt_0_32:
  "[0..<32] = [0, 1, 2, 3, 4, 5, 6, 7, 8, 9, 10, 11, 12, 13, 14, 15, 16, 17, 18, 19, 20,
     21, 22, 23, 24, 25, 26, 27, 28, 29, 30, 31]"
  by code_simp

lemma find_map_inv:
  assumes "\<And>x. P (f x) = P x"
  shows "find P (map f xs) = map_option f (find P xs)"
  using assms by (induction xs) auto

lemma getUser_None_createUser:
  "getUser db name = None \<Longrightarrow>
     createUser db name =
       Inr (\<lparr>user_id = next_user_id (users db), username = name, prf_salt = None,
              encrypted_blob_key = None, blob_nonce = None\<rparr>,
            db\<lparr>users := users db @
              [\<lparr>user_id = next_user_id (users db), username = name, prf_salt = None,
                 encrypted_blob_key = None, blob_nonce = None\<rparr>]\<rparr>)"
  by (auto simp: getUser_def createUser_def find_None_iff Let_def)

lemma server1_eq: "server1 = server0\<lparr>challenges := [''alice'' \<mapsto> ''c-reg'']\<rparr>"
  by (simp add: server1_def endpoint_defs db_defs demo_defs)

subsection \<open>What each endpoint does to the challenge map\<close>

lemma challenges_generate_registration_options:
  "challenges (snd (generate_registration_options c u st)) = (challenges st)(u \<mapsto> c)"
  by (cases "getUser (DB st) u")
     (simp_all add: generate_registration_options_def getUser_None_createUser Let_def)

lemma challenges_generate_authentication_options:
  "challenges (snd (generate_authentication_options c u st)) =
     (case fst (generate_authentication_options c u st) of
        RequestOptionsReply _ \<Rightarrow> (challenges st)(u \<mapsto> c)
      | _ \<Rightarrow> challenges st)"
  by (simp add: generate_authentication_options_def Let_def split: option.splits)

lemma challenges_verify_registration:
  "challenges (snd (verify_registration V u r st)) =
     (case fst (verify_registration V u r st) of
        VerifiedReply True _ \<Rightarrow> (challenges st)(u := None)
      | _ \<Rightarrow> challenges st)"
  by (simp add: verify_registration_def Let_def split: option.splits sum.splits bool.splits)

lemma challenges_verify_authentication:
  "challenges (snd (verify_authentication V u r st)) =
     (case fst (verify_authentication V u r st) of
        VerifiedReply True _ \<Rightarrow> (challenges st)(u := None)
      | _ \<Rightarrow> challenges st)"
  by (simp add: verify_authentication_def Let_def split: option.splits sum.splits bool.splits)

section \<open>Base64 round trips\<close>

text \<open>\<open>atob\<close> inverts \<open>btoa\<close>, and \<open>base64UrlToUint8Array\<close> inverts
  \<open>uint8ArrayToBase64Url\<close> wherever that answers a text.\<close>

lemma b64_val_b64_char: "n < 64 \<Longrightarrow> b64_val (b64_char n) = Some n"
  by (auto simp: b64_val_def b64_char_def Let_def)

lemma b64_char_not_pad: "n < 64 \<Longrightarrow> b64_char n \<noteq> CHR ''=''"
  using b64_val_b64_char [of n] by (auto simp: b64_val_def)

lemma b64_char_not_ws: "n < 64 \<Longrightarrow> \<not> ascii_whitespace (b64_char n)"
  using b64_val_b64_char [of n] by (auto simp: b64_val_def ascii_whitespace_def Let_def split: if_splits)

lemma b64_char_not_url: "n < 64 \<Longrightarrow> b64_char n \<noteq> CHR ''-'' \<and> b64_char n \<noteq> CHR ''_''"
  using b64_val_b64_char [of n] by (auto simp: b64_val_def)


lemma b64_encode_sextets:
  "b64_encode xs = map b64_char (b64_sextets xs) @ b64_padding (length xs)"
proof (induction xs rule: b64_sextets.induct)
  case (4 a b c rest)
  have "(3 + length rest) mod 3 = length rest mod 3" by simp
  with 4 show ?case by (simp add: b64_padding_def)
qed (simp_all add: b64_padding_def numeral_2_eq_2)

lemma b64_sextets_bound:
  "\<forall>x \<in> set xs. x < 256 \<Longrightarrow> \<forall>s \<in> set (b64_sextets xs). s < 64"
  by (induction xs rule: b64_sextets.induct) auto

lemma b64_decode_sextets:
  "\<forall>x \<in> set xs. x < 256 \<Longrightarrow> b64_decode (b64_sextets xs) = xs"
  by (induction xs rule: b64_sextets.induct) auto

lemma length_b64_sextets:
  "length (b64_sextets xs) = 4 * (length xs div 3) + (if length xs mod 3 = 0 then 0 else length xs mod 3 + 1)"
proof (induction xs rule: b64_sextets.induct)
  case (4 a b c rest)
  have "(3 + length rest) mod 3 = length rest mod 3" "(3 + length rest) div 3 = Suc (length rest div 3)"
    by simp_all
  with 4 show ?case by simp
qed simp_all


lemma length_b64_sextets_mod4:
  "length (b64_sextets xs) mod 4 = (if length xs mod 3 = 0 then 0 else length xs mod 3 + 1)"
proof -
  have "length xs mod 3 < 3" by simp
  then show ?thesis unfolding length_b64_sextets by auto
qed

lemma b64_padding_cases:
  "b64_padding n = (if n mod 3 = 0 then [] else if n mod 3 = 1 then ''=='' else ''='')"
proof -
  have "n mod 3 = 0 \<or> n mod 3 = 1 \<or> n mod 3 = 2" by arith
  then show ?thesis by (auto simp: b64_padding_def numeral_2_eq_2)
qed

lemma strip_padding_encoded:
  assumes "\<forall>s \<in> set ss. s < 64"
    and "length ss mod 4 = (if n mod 3 = 0 then 0 else n mod 3 + 1)"
  shows "strip_padding (map b64_char ss @ b64_padding n) = map b64_char ss"
proof -
  consider "n mod 3 = 0" | "n mod 3 = 1" | "n mod 3 = 2" by arith
  then show ?thesis
  proof cases
    case 1
    have "ss \<noteq> [] \<Longrightarrow> last (map b64_char ss) \<noteq> CHR ''=''"
      using assms(1) by (simp add: last_map b64_char_not_pad)
    with 1 show ?thesis
      by (auto simp: b64_padding_cases strip_padding_def)
  next
    case 2
    with assms(2) have "(length ss + 2) mod 4 = 0" by presburger
    with 2 show ?thesis
      by (simp add: b64_padding_cases strip_padding_def butlast_append)
  next
    case 3
    with assms(2) have len: "(length ss + 1) mod 4 = 0" by presburger
    then have "ss \<noteq> []" by auto
    then have "last (map b64_char ss) \<noteq> CHR ''=''"
      using assms(1) by (simp add: last_map b64_char_not_pad)
    with 3 len \<open>ss \<noteq> []\<close> show ?thesis
      by (simp add: b64_padding_cases strip_padding_def butlast_append)
  qed
qed

lemma filter_ws_encoded:
  assumes "\<forall>s \<in> set ss. s < 64"
  shows "filter (\<lambda>c. \<not> ascii_whitespace c) (map b64_char ss @ b64_padding n)
           = map b64_char ss @ b64_padding n"
proof -
  have "\<not> ascii_whitespace CHR ''=''" by (simp add: ascii_whitespace_def)
  then show ?thesis
    using assms by (auto simp: b64_padding_def filter_id_conv b64_char_not_ws)
qed

lemma b64_val_map:
  assumes "\<forall>s \<in> set ss. s < 64"
  shows "map (\<lambda>c. the (b64_val c)) (map b64_char ss) = ss"
  using assms by (induction ss) (simp_all add: b64_val_b64_char)

lemma atob_encoded:
  assumes "\<forall>x \<in> set xs. x < 256"
  shows "atob (b64_encode xs) = Inr (map of_nat xs)"
proof -
  let ?ss = "b64_sextets xs"
  have b: "\<forall>s \<in> set ?ss. s < 64" using assms by (rule b64_sextets_bound)
  have t: "strip_padding (filter (\<lambda>c. \<not> ascii_whitespace c) (b64_encode xs)) = map b64_char ?ss"
    unfolding b64_encode_sextets filter_ws_encoded [OF b]
    by (rule strip_padding_encoded [OF b length_b64_sextets_mod4])
  have m: "length ?ss mod 4 \<noteq> 1"
    by (simp add: length_b64_sextets_mod4)
  have v: "\<not> (\<exists>c \<in> set (map b64_char ?ss). b64_val c = None)"
    using b by (auto simp: b64_val_b64_char)
  show ?thesis
    unfolding atob_def t Let_def b64_val_map [OF b] b64_decode_sextets [OF assms]
    using m v by simp
qed

lemma unat_byte_bound: "\<forall>x \<in> set (map unat (bs :: bytes)). x < 256"
proof -
  have "unat b < 256" for b :: "8 word"
    using unsigned_less [of b, where 'a = nat] by simp
  then show ?thesis by simp
qed

lemma atob_btoa: "atob (btoa bs) = Inr bs"
  unfolding btoa_def
  by (simp add: atob_encoded [OF unat_byte_bound] comp_def)


lemma url_encoded:
  assumes "\<forall>s \<in> set ss. s < 64"
  shows "filter (\<lambda>c. c \<noteq> CHR ''='')
           (map (\<lambda>c. if c = CHR ''/'' then CHR ''_'' else c)
              (map (\<lambda>c. if c = CHR ''+'' then CHR ''-'' else c)
                 (map b64_char ss @ b64_padding n)))
         = map (\<lambda>c. if c = CHR ''/'' then CHR ''_'' else c)
              (map (\<lambda>c. if c = CHR ''+'' then CHR ''-'' else c) (map b64_char ss))"
  using assms
  by (auto simp: b64_padding_def filter_id_conv b64_char_not_pad b64_char_not_pad [THEN not_sym])

lemma url_decoded:
  assumes "\<forall>s \<in> set ss. s < 64"
  shows "map (\<lambda>c. if c = CHR ''_'' then CHR ''/'' else c)
           (map (\<lambda>c. if c = CHR ''-'' then CHR ''+'' else c)
              (map (\<lambda>c. if c = CHR ''/'' then CHR ''_'' else c)
                 (map (\<lambda>c. if c = CHR ''+'' then CHR ''-'' else c) (map b64_char ss))))
         = map b64_char ss"
  using assms by (induction ss) (auto simp: b64_char_not_url)

lemma padding_restored:
  "replicate ((4 - length (b64_sextets xs) mod 4) mod 4) CHR ''='' = b64_padding (length xs)"
proof -
  have "length xs mod 3 = 0 \<or> length xs mod 3 = 1 \<or> length xs mod 3 = 2" by arith
  then show ?thesis
    by (auto simp: length_b64_sextets_mod4 b64_padding_def)
qed

lemma base64url_roundtrip: "base64UrlToUint8Array (base64url bs) = Inr bs"
proof -
  let ?xs = "map unat bs"
  let ?ss = "b64_sextets ?xs"
  have b: "\<forall>s \<in> set ?ss. s < 64"
    using unat_byte_bound by (rule b64_sextets_bound)
  have enc: "base64url bs
      = map (\<lambda>c. if c = CHR ''/'' then CHR ''_'' else c)
          (map (\<lambda>c. if c = CHR ''+'' then CHR ''-'' else c) (map b64_char ?ss))"
    unfolding base64url_def btoa_def b64_encode_sextets
    by (rule url_encoded [OF b])
  have "base64UrlToUint8Array (base64url bs)
          = atob (map b64_char ?ss @ b64_padding (length ?xs))"
    unfolding base64UrlToUint8Array_def enc Let_def url_decoded [OF b]
    by (simp add: padding_restored)
  also have "\<dots> = atob (btoa bs)"
    by (simp add: btoa_def b64_encode_sextets)
  finally show ?thesis by (simp add: atob_btoa)
qed

subsection \<open>The bound on arguments\<close>

lemma btoa_spread_within: "length bs \<le> limit \<Longrightarrow> btoa_spread limit bs = Inr (btoa bs)"
  by (simp add: btoa_spread_def fromCharCode_spread_def)

lemma btoa_spread_beyond: "limit < length bs \<Longrightarrow> btoa_spread limit bs = Inl RangeError"
  by (simp add: btoa_spread_def fromCharCode_spread_def)

lemma btoa_spread_cases:
  "btoa_spread limit bs = Inr (btoa bs) \<or> btoa_spread limit bs = Inl RangeError"
  by (simp add: btoa_spread_def fromCharCode_spread_def)

lemma uint8ArrayToBase64Url_within:
  "length bs \<le> limit \<Longrightarrow> uint8ArrayToBase64Url limit bs = Inr (base64url bs)"
  by (simp add: uint8ArrayToBase64Url_def btoa_spread_within base64url_def)

lemma uint8ArrayToBase64Url_beyond:
  "limit < length bs \<Longrightarrow> uint8ArrayToBase64Url limit bs = Inl RangeError"
  by (simp add: uint8ArrayToBase64Url_def btoa_spread_beyond)

section \<open>Challenges and ceremony kinds\<close>

text \<open>
  Claim C2, as stated: a pending challenge is bound to a (username, ceremony kind) pair, so
  that a challenge issued by begin-registration can only be consumed by
  complete-registration, and issuing a challenge of one kind never replaces or satisfies
  the pending challenge of the other kind.

  The map \<open>challenges\<close> is keyed by the username alone. With Alice's registration
  challenge \<open>c-reg\<close> pending, an assertion over \<open>c-reg\<close> posted to
  \<open>/verify-authentication\<close> is verified and removes the challenge, and
  \<open>/generate-authentication-options\<close> replaces it by \<open>c-auth\<close>.
\<close>

theorem challenge_kind_counterexample:
  "challenges server1 ''alice'' = Some ''c-reg''
   \<and> fst (verify_authentication demo_verifyAuthenticationResponse ''alice''
            (alice_assertion ''c-reg'' 6) server1) = VerifiedReply True (Some alice)
   \<and> challenges (snd (verify_authentication demo_verifyAuthenticationResponse ''alice''
            (alice_assertion ''c-reg'' 6) server1)) ''alice'' = None
   \<and> challenges (snd (generate_authentication_options ''c-auth'' ''alice'' server1)) ''alice''
        = Some ''c-auth''"
  by (simp add: server1_eq endpoint_defs db_defs demo_defs)

text \<open>
  Claim C2, amended: a pending challenge is bound to exactly one username, with no
  ceremony kind attached. Either begin endpoint, when it issues a challenge for \<open>u\<close>,
  stores it under \<open>u\<close> in place of whatever was pending there and leaves the entries
  of all other usernames alone; a complete call of either kind that names another user
  \<open>v\<close> never touches the entry of \<open>u\<close>; and a complete call of either kind for
  \<open>u\<close> hands the verifier the challenge pending under \<open>u\<close> and no other.
\<close>

theorem challenge_bound_to_username:
  "challenges (snd (generate_registration_options c u st)) = (challenges st)(u \<mapsto> c)
   \<and> challenges (snd (generate_authentication_options c u st)) =
        (case fst (generate_authentication_options c u st) of
           RequestOptionsReply _ \<Rightarrow> (challenges st)(u \<mapsto> c)
         | _ \<Rightarrow> challenges st)
   \<and> (v \<noteq> u \<longrightarrow>
        challenges (snd (verify_registration VR v rr st)) u = challenges st u
        \<and> challenges (snd (verify_authentication VA v ra st)) u = challenges st u)
   \<and> (challenges st u = Some ch \<longrightarrow>
        verify_registration VR u rr st
          = verify_registration (\<lambda>response expected. VR response ch) u rr st
        \<and> verify_authentication VA u ra st
          = verify_authentication (\<lambda>response expected. VA response ch) u ra st)"
proof (intro conjI impI)
  show "challenges (snd (generate_registration_options c u st)) = (challenges st)(u \<mapsto> c)"
    by (rule challenges_generate_registration_options)
  show "challenges (snd (generate_authentication_options c u st)) =
        (case fst (generate_authentication_options c u st) of
           RequestOptionsReply _ \<Rightarrow> (challenges st)(u \<mapsto> c)
         | _ \<Rightarrow> challenges st)"
    by (rule challenges_generate_authentication_options)
next
  assume "v \<noteq> u"
  then show "challenges (snd (verify_registration VR v rr st)) u = challenges st u"
    by (simp add: challenges_verify_registration split: reply.splits bool.splits)
  from \<open>v \<noteq> u\<close> show "challenges (snd (verify_authentication VA v ra st)) u = challenges st u"
    by (simp add: challenges_verify_authentication split: reply.splits bool.splits)
next
  assume "challenges st u = Some ch"
  then show "verify_registration VR u rr st
               = verify_registration (\<lambda>response expected. VR response ch) u rr st"
    by (simp add: verify_registration_def)
  from \<open>challenges st u = Some ch\<close>
  show "verify_authentication VA u ra st
          = verify_authentication (\<lambda>response expected. VA response ch) u ra st"
    by (simp add: verify_authentication_def)
qed

theorem challenge_bound_to_username_witness:
  "challenges (snd (generate_registration_options ''c2'' ''alice'' server1))
     = (challenges server1)(''alice'' \<mapsto> ''c2'')
   \<and> challenges (snd (generate_authentication_options ''c2'' ''alice'' server1))
     = (challenges server1)(''alice'' \<mapsto> ''c2'')
   \<and> challenges (snd (verify_registration demo_verifyRegistrationResponse ''bob''
                        (alice_attestation ''c-reg'') server1)) ''alice'' = Some ''c-reg''
   \<and> challenges (snd (verify_authentication demo_verifyAuthenticationResponse ''bob''
                        (bob_assertion ''c-reg'' 1) server1)) ''alice'' = Some ''c-reg''
   \<and> verify_authentication demo_verifyAuthenticationResponse ''alice''
        (alice_assertion ''c-reg'' 6) server1
     = verify_authentication (\<lambda>response expected. demo_verifyAuthenticationResponse
                                 response ''c-reg'') ''alice''
        (alice_assertion ''c-reg'' 6) server1"
  using challenge_bound_to_username [of "''c2''" "''alice''" server1 "''bob''"
          demo_verifyRegistrationResponse "alice_attestation ''c-reg''"
          "demo_verifyAuthenticationResponse" "bob_assertion ''c-reg'' 1" "''c-reg''"]
        challenge_bound_to_username [of "''c2''" "''alice''" server1 "''bob''"
          demo_verifyRegistrationResponse "alice_attestation ''c-reg''"
          "demo_verifyAuthenticationResponse" "alice_assertion ''c-reg'' 6" "''c-reg''"]
  by (simp add: server1_eq endpoint_defs db_defs demo_defs)

section \<open>Consumption of the challenge\<close>

lemma server2_eq: "server2 = server0\<lparr>challenges := [''alice'' \<mapsto> ''c-auth'']\<rparr>"
  by (simp add: server2_def endpoint_defs db_defs demo_defs)

text \<open>
  Claim C3, as stated: completing a ceremony consumes the pending challenge whatever the
  outcome, and no ceremony can be completed twice with the same challenge.

  The handlers delete the challenge in the verified branch only. A forged assertion over
  Alice's pending challenge is answered \<open>verified: false\<close> and leaves the whole server
  state, the challenge included, as it was; a second completion over the same challenge
  is then verified.
\<close>

theorem rejected_completion_counterexample:
  "verify_authentication demo_verifyAuthenticationResponse ''alice''
       (forged_assertion ''c-auth'' 6) server2 = (VerifiedReply False None, server2)
   \<and> challenges server2 ''alice'' = Some ''c-auth''
   \<and> fst (verify_authentication demo_verifyAuthenticationResponse ''alice''
            (alice_assertion ''c-auth'' 6)
            (snd (verify_authentication demo_verifyAuthenticationResponse ''alice''
                    (forged_assertion ''c-auth'' 6) server2)))
       = VerifiedReply True (Some alice)"
  by (simp add: server2_eq forged_assertion_def endpoint_defs db_defs demo_defs)

lemma verify_registration_no_challenge:
  "challenges st u = None \<Longrightarrow>
     verify_registration V u r st = (ErrorReply ''Challenge not found'' 400, st)"
  by (simp add: verify_registration_def)

lemma verify_authentication_no_challenge:
  "challenges st u = None \<Longrightarrow>
     verify_authentication V u r st = (ErrorReply ''Challenge not found'' 400, st)"
  by (simp add: verify_authentication_def)

lemma verify_registration_unverified:
  "(\<forall>x. fst (verify_registration V u r st) \<noteq> VerifiedReply True x) \<Longrightarrow>
     snd (verify_registration V u r st) = st"
  by (auto simp: verify_registration_def Let_def split: option.splits sum.splits bool.splits if_splits)

lemma verify_authentication_unverified:
  "(\<forall>x. fst (verify_authentication V u r st) \<noteq> VerifiedReply True x) \<Longrightarrow>
     snd (verify_authentication V u r st) = st"
  by (auto simp: verify_authentication_def Let_def split: option.splits sum.splits bool.splits if_splits)

text \<open>
  Claim C3, amended: a completion consumes the pending challenge exactly when it answers
  \<open>verified: true\<close>. After such an answer the username has no pending challenge and
  every further completion of either kind for it answers "Challenge not found" and
  changes nothing, so no challenge is verified twice; a completion that answers anything
  else (\<open>verified: false\<close> or an error) leaves the server state unchanged, the pending
  challenge included.
\<close>

theorem challenge_consumed_when_verified:
  "((\<exists>x. fst (verify_registration VR u rr st) = VerifiedReply True x) \<longrightarrow>
       challenges (snd (verify_registration VR u rr st)) u = None
       \<and> verify_registration VR' u rr' (snd (verify_registration VR u rr st))
           = (ErrorReply ''Challenge not found'' 400, snd (verify_registration VR u rr st))
       \<and> verify_authentication VA' u ra' (snd (verify_registration VR u rr st))
           = (ErrorReply ''Challenge not found'' 400, snd (verify_registration VR u rr st)))
   \<and> ((\<exists>x. fst (verify_authentication VA u ra st) = VerifiedReply True x) \<longrightarrow>
       challenges (snd (verify_authentication VA u ra st)) u = None
       \<and> verify_registration VR' u rr' (snd (verify_authentication VA u ra st))
           = (ErrorReply ''Challenge not found'' 400, snd (verify_authentication VA u ra st))
       \<and> verify_authentication VA' u ra' (snd (verify_authentication VA u ra st))
           = (ErrorReply ''Challenge not found'' 400, snd (verify_authentication VA u ra st)))
   \<and> ((\<forall>x. fst (verify_registration VR u rr st) \<noteq> VerifiedReply True x) \<longrightarrow>
         snd (verify_registration VR u rr st) = st)
   \<and> ((\<forall>x. fst (verify_authentication VA u ra st) \<noteq> VerifiedReply True x) \<longrightarrow>
         snd (verify_authentication VA u ra st) = st)"
proof (intro conjI impI)
  assume "\<exists>x. fst (verify_registration VR u rr st) = VerifiedReply True x"
  then show none: "challenges (snd (verify_registration VR u rr st)) u = None"
    by (auto simp: challenges_verify_registration)
  show "verify_registration VR' u rr' (snd (verify_registration VR u rr st))
           = (ErrorReply ''Challenge not found'' 400, snd (verify_registration VR u rr st))"
    using none by (rule verify_registration_no_challenge)
  show "verify_authentication VA' u ra' (snd (verify_registration VR u rr st))
           = (ErrorReply ''Challenge not found'' 400, snd (verify_registration VR u rr st))"
    using none by (rule verify_authentication_no_challenge)
next
  assume "\<exists>x. fst (verify_authentication VA u ra st) = VerifiedReply True x"
  then show none: "challenges (snd (verify_authentication VA u ra st)) u = None"
    by (auto simp: challenges_verify_authentication)
  show "verify_registration VR' u rr' (snd (verify_authentication VA u ra st))
           = (ErrorReply ''Challenge not found'' 400, snd (verify_authentication VA u ra st))"
    using none by (rule verify_registration_no_challenge)
  show "verify_authentication VA' u ra' (snd (verify_authentication VA u ra st))
           = (ErrorReply ''Challenge not found'' 400, snd (verify_authentication VA u ra st))"
    using none by (rule verify_authentication_no_challenge)
next
  assume "\<forall>x. fst (verify_registration VR u rr st) \<noteq> VerifiedReply True x"
  then show "snd (verify_registration VR u rr st) = st"
    by (rule verify_registration_unverified)
next
  assume "\<forall>x. fst (verify_authentication VA u ra st) \<noteq> VerifiedReply True x"
  then show "snd (verify_authentication VA u ra st) = st"
    by (rule verify_authentication_unverified)
qed


theorem challenge_consumed_when_verified_witness:
  "challenges (snd (verify_registration demo_verifyRegistrationResponse ''alice''
                      (alice_attestation ''c-reg'') server1)) ''alice'' = None
   \<and> fst (verify_authentication demo_verifyAuthenticationResponse ''alice''
            (alice_assertion ''c-reg'' 6)
            (snd (verify_registration demo_verifyRegistrationResponse ''alice''
                      (alice_attestation ''c-reg'') server1)))
       = ErrorReply ''Challenge not found'' 400
   \<and> challenges (snd (verify_authentication demo_verifyAuthenticationResponse ''alice''
                      (alice_assertion ''c-reg'' 6) server1)) ''alice'' = None
   \<and> snd (verify_authentication demo_verifyAuthenticationResponse ''alice''
            (forged_assertion ''c-reg'' 6) server1) = server1
   \<and> snd (verify_registration demo_verifyRegistrationResponse ''alice''
            (alice_attestation ''stale'') server1) = server1"
  using challenge_consumed_when_verified [of demo_verifyRegistrationResponse "''alice''"
          "alice_attestation ''c-reg''" server1 demo_verifyRegistrationResponse
          "alice_attestation ''c-reg''" "demo_verifyAuthenticationResponse"
          "alice_assertion ''c-reg'' 6" "demo_verifyAuthenticationResponse"
          "alice_assertion ''c-reg'' 6"]
        challenge_consumed_when_verified [of demo_verifyRegistrationResponse "''alice''"
          "alice_attestation ''stale''" server1 demo_verifyRegistrationResponse
          "alice_attestation ''c-reg''" "demo_verifyAuthenticationResponse"
          "alice_assertion ''c-reg'' 6" "demo_verifyAuthenticationResponse"
          "forged_assertion ''c-reg'' 6"]
  by (simp add: server1_eq forged_assertion_def endpoint_defs db_defs demo_defs)

section \<open>The signature counter\<close>

lemma find_SomeD: "find P xs = Some x \<Longrightarrow> P x"
  by (induction xs) (auto split: if_splits)

lemma getPasskeyById_pk_id:
  "getPasskeyById db cid = Some p \<Longrightarrow> pk_id p = cid"
  by (auto simp: getPasskeyById_def passkey_of_row_def split: option.splits dest: find_SomeD)

lemma find_cred_updatePasskeyCounter:
  "find (\<lambda>r. cred_id r = cid) (passkeys (updatePasskeyCounter db cid' n))
     = map_option (\<lambda>r. if cred_id r = cid' then r\<lparr>row_counter := n\<rparr> else r)
         (find (\<lambda>r. cred_id r = cid) (passkeys db))"
  unfolding updatePasskeyCounter_def by (simp add: find_map_inv)

lemma getPasskeyById_updatePasskeyCounter:
  "getPasskeyById db cid = Some p \<Longrightarrow>
     getPasskeyById (updatePasskeyCounter db cid n) cid = Some (p\<lparr>counter := n\<rparr>)"
  unfolding getPasskeyById_def find_cred_updatePasskeyCounter
  by (auto simp: getUserById_def updatePasskeyCounter_def passkey_of_row_def
           split: option.splits dest: find_SomeD)

lemma getPasskeyById_updatePasskeyCounter_other:
  "cid' \<noteq> cid \<Longrightarrow>
     getPasskeyById (updatePasskeyCounter db cid' n) cid = getPasskeyById db cid"
  unfolding getPasskeyById_def find_cred_updatePasskeyCounter
  by (auto simp: getUserById_def updatePasskeyCounter_def passkey_of_row_def
           split: option.splits dest: find_SomeD)

text \<open>Once the challenge, the user and the credential are found, the outcome is the
  verifier's: a verified result makes the endpoint store the reported counter for the
  credential named in the response, an unverified result and an exception change
  nothing.\<close>

lemma verify_authentication_outcome:
  assumes "challenges st u = Some ch" and "ch \<noteq> []"
    and "getUser (DB st) u = Some user"
    and "getPasskeyById (DB st) (auth_id r) = Some passkey"
  shows "(case V r ch origin rpID \<lparr>wc_id = pk_id passkey, wc_publicKey = publicKey passkey,
                     wc_counter = counter passkey, wc_transports = transports passkey\<rparr> of
            Inl e \<Rightarrow> verify_authentication V u r st = (ThrownReply e 400, st)
          | Inr v \<Rightarrow>
              if auth_verified v
              then fst (verify_authentication V u r st) = VerifiedReply True (Some (pk_user passkey))
                   \<and> DB (snd (verify_authentication V u r st))
                       = updatePasskeyCounter (DB st) (auth_id r) (newCounter v)
                   \<and> getPasskeyById (DB (snd (verify_authentication V u r st))) (auth_id r)
                       = Some (passkey\<lparr>counter := newCounter v\<rparr>)
              else verify_authentication V u r st = (VerifiedReply False None, st))"
proof -
  have id: "pk_id passkey = auth_id r"
    using assms(4) by (rule getPasskeyById_pk_id)
  show ?thesis
    using assms
    by (simp add: verify_authentication_def id getPasskeyById_updatePasskeyCounter
             split: sum.splits)
qed

text \<open>
  Claim C4: a successful complete-authentication sets the stored counter of the credential
  to the counter the verifier reports, which is not below the one stored before; and a
  response that reports a lower counter fails and leaves the server state, the stored
  counter included, unchanged. The failure is the verifier's own error for the counter,
  answered with status 400 under its own text whenever the request reaches the verifier
  with the challenge it signed. The comparison is the verifier's: the endpoint hands it
  the stored counter and stores the counter it reports. The verifier is the library
  stand-in, which reports the counter of the response.
\<close>

theorem authentication_counter_monotone:
  assumes "getPasskeyById (DB st) (auth_id r) = Some passkey"
  shows "((\<exists>x. fst (verify_authentication demo_verifyAuthenticationResponse u r st)
                = VerifiedReply True x) \<longrightarrow>
            getPasskeyById
              (DB (snd (verify_authentication demo_verifyAuthenticationResponse u r st)))
              (auth_id r) = Some (passkey\<lparr>counter := auth_counter r\<rparr>)
            \<and> counter passkey \<le> auth_counter r)
       \<and> (auth_counter r < counter passkey \<longrightarrow>
            snd (verify_authentication demo_verifyAuthenticationResponse u r st) = st
            \<and> (\<forall>x. fst (verify_authentication demo_verifyAuthenticationResponse u r st)
                       \<noteq> VerifiedReply True x)
            \<and> (\<forall>user. challenges st u = Some (auth_challenge r) \<and> auth_challenge r \<noteq> []
                       \<and> getUser (DB st) u = Some user \<longrightarrow>
                  fst (verify_authentication demo_verifyAuthenticationResponse u r st)
                    = ThrownReply (counter_error (auth_counter r) (counter passkey)) 400))"
proof -
  have id: "pk_id passkey = auth_id r"
    using assms by (rule getPasskeyById_pk_id)
  show ?thesis
    using assms
    by (auto simp: verify_authentication_def demo_verifyAuthenticationResponse_def id
          getPasskeyById_updatePasskeyCounter split: option.splits if_splits)
qed

theorem authentication_counter_monotone_witness:
  "fst (verify_authentication demo_verifyAuthenticationResponse ''alice''
          (alice_assertion ''c-auth'' 9) server2) = VerifiedReply True (Some alice)
   \<and> map_option counter (getPasskeyById (DB server2) ''cred-A'') = Some 5
   \<and> map_option counter
        (getPasskeyById
           (DB (snd (verify_authentication demo_verifyAuthenticationResponse ''alice''
                       (alice_assertion ''c-auth'' 9) server2))) ''cred-A'') = Some 9
   \<and> verify_authentication demo_verifyAuthenticationResponse ''alice''
        (alice_assertion ''c-auth'' 3) server2
       = (ThrownReply (counter_error 3 5) 400, server2)
   \<and> counter_error 3 5 = LibraryError ''Response counter value 3 was lower than expected 5''"
proof -
  have pk: "getPasskeyById (DB server2) ''cred-A'' = Some (passkey_of_row alice alice_key)"
    by (simp add: server2_eq db_defs demo_defs)
  have c: "counter (passkey_of_row alice alice_key) = 5"
    by (simp add: passkey_of_row_def alice_key_def)
  have s: "challenges server2 ''alice'' = Some ''c-auth''" "getUser (DB server2) ''alice'' = Some alice"
    by (simp_all add: server2_eq db_defs demo_defs)
  have ok: "fst (verify_authentication demo_verifyAuthenticationResponse ''alice''
          (alice_assertion ''c-auth'' 9) server2) = VerifiedReply True (Some alice)"
    by (simp add: server2_eq endpoint_defs db_defs demo_defs)
  from authentication_counter_monotone [of server2 "alice_assertion ''c-auth'' 9"
         "passkey_of_row alice alice_key" "''alice''"] pk ok
  have 1: "map_option counter
        (getPasskeyById
           (DB (snd (verify_authentication demo_verifyAuthenticationResponse ''alice''
                       (alice_assertion ''c-auth'' 9) server2))) ''cred-A'') = Some 9"
    by (simp add: alice_assertion_def)
  from authentication_counter_monotone [of server2 "alice_assertion ''c-auth'' 3"
         "passkey_of_row alice alice_key" "''alice''"] pk c s
  have 2: "verify_authentication demo_verifyAuthenticationResponse ''alice''
        (alice_assertion ''c-auth'' 3) server2
       = (ThrownReply (counter_error 3 5) 400, server2)"
    by (simp add: alice_assertion_def prod_eq_iff)
  have 3: "counter_error 3 5 = LibraryError ''Response counter value 3 was lower than expected 5''"
    by (simp add: counter_error_def toString.simps digit_char_def)
  from ok pk c 1 2 3 show ?thesis by simp
qed

section \<open>Whose credential\<close>

text \<open>
  Claim C10: complete-authentication finds the credential by the credential id of the
  response alone. Nothing relates the credential's owner to the user named in the request:
  whenever the challenge pending for the request's username is present, that user exists,
  a credential row with the response's id exists with an owner row, and the verifier
  reports success, the answer is \<open>verified: true\<close> with the owner's user record, the
  counter of that credential is set to the reported one, and the challenge removed is the
  one of the request's username.
\<close>

theorem authentication_ignores_credential_owner:
  assumes "challenges st u = Some ch" and "ch \<noteq> []"
    and "getUser (DB st) u = Some user"
    and "find (\<lambda>row. cred_id row = auth_id r) (passkeys (DB st)) = Some row"
    and "getUserById (DB st) (internal_user_id row) = Some owner"
    and "V r ch origin rpID \<lparr>wc_id = cred_id row, wc_publicKey = cred_public_key row,
           wc_counter = row_counter row,
           wc_transports = transports (passkey_of_row owner row)\<rparr> = Inr v"
    and "auth_verified v"
  shows "fst (verify_authentication V u r st) = VerifiedReply True (Some owner)
     \<and> find (\<lambda>row. cred_id row = auth_id r)
          (passkeys (DB (snd (verify_authentication V u r st))))
         = Some (row\<lparr>row_counter := newCounter v\<rparr>)
     \<and> challenges (snd (verify_authentication V u r st)) = (challenges st)(u := None)"
proof -
  have pk: "getPasskeyById (DB st) (auth_id r) = Some (passkey_of_row owner row)"
    using assms(4,5) by (simp add: getPasskeyById_def)
  have cid: "cred_id row = auth_id r"
    using assms(4) by (auto dest: find_SomeD)
  have reply: "verify_authentication V u r st =
      (VerifiedReply True (Some owner),
       st\<lparr>DB := updatePasskeyCounter (DB st) (auth_id r) (newCounter v),
          challenges := (challenges st)(u := None)\<rparr>)"
    using assms(1,2,3,6,7) pk cid
    by (simp add: verify_authentication_def passkey_of_row_def)
  show ?thesis
    unfolding reply using assms(4) cid
    by (simp add: find_cred_updatePasskeyCounter)
qed

theorem authentication_ignores_credential_owner_witness:
  "fst (verify_authentication demo_verifyAuthenticationResponse ''alice''
          (bob_assertion ''c-auth'' 1) server2) = VerifiedReply True (Some bob)
   \<and> find (\<lambda>row. cred_id row = ''cred-B'')
        (passkeys (DB (snd (verify_authentication demo_verifyAuthenticationResponse ''alice''
          (bob_assertion ''c-auth'' 1) server2)))) = Some (bob_key\<lparr>row_counter := 1\<rparr>)
   \<and> challenges (snd (verify_authentication demo_verifyAuthenticationResponse ''alice''
          (bob_assertion ''c-auth'' 1) server2)) ''alice'' = None
   \<and> username bob \<noteq> ''alice''"
  using authentication_ignores_credential_owner [of server2 "''alice''" "''c-auth''" alice
          "bob_assertion ''c-auth'' 1" bob_key bob "demo_verifyAuthenticationResponse"
          "\<lparr>auth_verified = True, newCounter = 1\<rparr>"]
  by (simp add: server2_eq endpoint_defs db_defs demo_defs)

section \<open>The PRF salt\<close>

lemma find_Some_set: "find P xs = Some x \<Longrightarrow> x \<in> set xs"
  by (induction xs) (auto split: if_splits)

lemma find_append_if:
  "find P (xs @ ys) = (case find P xs of None \<Rightarrow> find P ys | Some x \<Rightarrow> Some x)"
  by (induction xs) auto

lemma salt_of_users_eq:
  "users (DB st') = users (DB st) \<Longrightarrow> salt_of st' n = salt_of st n"
  by (simp add: salt_of_def getUser_def)

lemma users_verify_registration:
  "users (DB (snd (verify_registration V u r st))) = users (DB st)"
  by (simp add: verify_registration_def savePasskey_def Let_def
           split: option.splits sum.splits bool.splits)

lemma users_verify_authentication:
  "users (DB (snd (verify_authentication V u r st))) = users (DB st)"
  by (simp add: verify_authentication_def updatePasskeyCounter_def Let_def
           split: option.splits sum.splits)

lemma users_generate_authentication_options:
  "users (DB (snd (generate_authentication_options c u st))) = users (DB st)"
  by (simp add: generate_authentication_options_def Let_def split: option.splits)

lemma salt_of_generate_registration_options:
  "salt_of (snd (generate_registration_options c u st)) n = salt_of st n"
proof (cases "getUser (DB st) u")
  case (Some user)
  then show ?thesis
    by (simp add: generate_registration_options_def Let_def salt_of_def getUser_def)
next
  case None
  then show ?thesis
    by (simp add: generate_registration_options_def getUser_None_createUser Let_def salt_of_def)
       (auto simp: getUser_def find_append_if split: option.splits)
qed

lemma salt_of_store_blob:
  "salt_of (snd (store_blob u b nonce st)) n = salt_of st n"
  by (cases "find (\<lambda>u. username u = n) (users (DB st))")
     (simp_all add: store_blob_def Let_def salt_of_def getUser_def saveUserBlobReference_def
        find_map_inv split: option.splits sum.splits)

lemma salt_of_save_prf_salt_same:
  assumes "getUser (DB st) u = Some user"
  shows "salt_of (snd (save_prf_salt u s st)) u = Some s"
  using assms
  by (auto simp: save_prf_salt_def salt_of_def getUser_def saveUserPrfSalt_def find_map_inv
          dest: find_SomeD)

lemma salt_of_save_prf_salt_other:
  assumes "distinct (map user_id (users (DB st)))" and "n \<noteq> u"
  shows "salt_of (snd (save_prf_salt u s st)) n = salt_of st n"
proof (cases "getUser (DB st) u")
  case None
  then show ?thesis by (simp add: save_prf_salt_def)
next
  case (Some user)
  show ?thesis
  proof (cases "getUser (DB st) n")
    case None
    then show ?thesis using Some
      by (simp add: save_prf_salt_def salt_of_def getUser_def saveUserPrfSalt_def find_map_inv)
  next
    case (Some other)
    have "user \<in> set (users (DB st))" "other \<in> set (users (DB st))"
      using \<open>getUser (DB st) u = Some user\<close> Some by (auto simp: getUser_def dest: find_Some_set)
    moreover have "username user = u" "username other = n"
      using \<open>getUser (DB st) u = Some user\<close> Some by (auto simp: getUser_def dest: find_SomeD)
    ultimately have "user_id other \<noteq> user_id user"
      using assms by (auto simp: distinct_map dest: inj_onD)
    then show ?thesis using Some \<open>getUser (DB st) u = Some user\<close>
      by (simp add: save_prf_salt_def salt_of_def getUser_def saveUserPrfSalt_def find_map_inv)
  qed
qed

subsection \<open>User ids stay distinct\<close>

text \<open>The column \<open>id\<close> is the primary key of \<open>users\<close>. The endpoints that write
  to the table keep the ids distinct: a new row takes an id above all the others, and the
  two updates leave the ids alone.\<close>

lemma fold_max_ge: "(a::nat) \<le> fold max xs a"
  by (induction xs arbitrary: a) (auto intro: order_trans [OF max.cobounded2])

lemma fold_max_upper: "x \<in> set xs \<Longrightarrow> (x::nat) \<le> fold max xs a"
proof (induction xs arbitrary: a)
  case Nil
  then show ?case by simp
next
  case (Cons y ys)
  show ?case
  proof (cases "x = y")
    case True
    have "y \<le> max y a" by simp
    also have "\<dots> \<le> fold max ys (max y a)" by (rule fold_max_ge)
    finally show ?thesis using True by simp
  next
    case False
    with Cons show ?thesis by simp
  qed
qed

lemma next_user_id_fresh: "u \<in> set us \<Longrightarrow> user_id u < next_user_id us"
  unfolding next_user_id_def
  using fold_max_upper [of "user_id u" "map user_id us" 0] by (simp add: less_Suc_eq_le)

lemma user_ids_generate_registration_options:
  assumes "distinct (map user_id (users (DB st)))"
  shows "distinct (map user_id (users (DB (snd (generate_registration_options c u st)))))"
proof (cases "getUser (DB st) u")
  case (Some user)
  with assms show ?thesis
    by (simp add: generate_registration_options_def Let_def)
next
  case None
  with assms show ?thesis
    by (auto simp: generate_registration_options_def getUser_None_createUser Let_def
             dest: next_user_id_fresh)
qed

lemma user_ids_store_blob:
  "map user_id (users (DB (snd (store_blob u b n st)))) = map user_id (users (DB st))"
  by (simp add: store_blob_def saveUserBlobReference_def Let_def comp_def
           split: option.splits sum.splits)

lemma user_ids_save_prf_salt:
  "map user_id (users (DB (snd (save_prf_salt u s st)))) = map user_id (users (DB st))"
  by (simp add: save_prf_salt_def saveUserPrfSalt_def comp_def split: option.splits)

text \<open>
  Claim C1, as stated: once a PRF salt has been persisted for a user, no operation
  replaces it by a different one.

  \<open>/save-prf-salt\<close> is an unconditional \<open>UPDATE users SET prf_salt = ?\<close>: Alice's
  stored salt is replaced by the salt of a second request.
\<close>

theorem prf_salt_overwrite_counterexample:
  "salt_of server0 ''alice'' = Some ''c2FsdC1vbmU''
   \<and> fst (save_prf_salt ''alice'' ''c2FsdC10d28'' server0) = SuccessReply
   \<and> salt_of (snd (save_prf_salt ''alice'' ''c2FsdC10d28'' server0)) ''alice'' = Some ''c2FsdC10d28''"
  by (simp add: salt_of_def endpoint_defs db_defs demo_defs)

text \<open>
  Claim C1, amended: a persisted PRF salt is changed by no endpoint other than
  \<open>/save-prf-salt\<close>. The four ceremony endpoints and \<open>/store-blob\<close> leave the salt
  of every username as it was, and \<open>/retrieve-blob\<close>, \<open>/get-prf-salt\<close> and
  \<open>/check-blob\<close> change nothing at all. \<open>/save-prf-salt\<close> changes nothing for an
  unknown username; for a known one it sets the salt to the value sent, whatever was
  stored before, and (user ids being distinct, as the primary key makes them) leaves the
  salt of every other username alone.
\<close>

theorem prf_salt_changed_only_by_save_prf_salt:
  "salt_of (snd (generate_registration_options c u st)) n = salt_of st n
   \<and> salt_of (snd (verify_registration VR u rr st)) n = salt_of st n
   \<and> salt_of (snd (generate_authentication_options c u st)) n = salt_of st n
   \<and> salt_of (snd (verify_authentication VA u ra st)) n = salt_of st n
   \<and> salt_of (snd (store_blob u blob nonce st)) n = salt_of st n
   \<and> snd (retrieve_blob u st) = st
   \<and> snd (get_prf_salt u st) = st
   \<and> snd (check_blob u st) = st
   \<and> (getUser (DB st) u = None \<longrightarrow> snd (save_prf_salt u s st) = st)
   \<and> (getUser (DB st) u \<noteq> None \<longrightarrow> salt_of (snd (save_prf_salt u s st)) u = Some s)
   \<and> (distinct (map user_id (users (DB st))) \<and> n \<noteq> u \<longrightarrow>
        salt_of (snd (save_prf_salt u s st)) n = salt_of st n)"
proof (intro conjI impI)
  show "salt_of (snd (generate_registration_options c u st)) n = salt_of st n"
    by (rule salt_of_generate_registration_options)
  show "salt_of (snd (verify_registration VR u rr st)) n = salt_of st n"
    by (rule salt_of_users_eq) (rule users_verify_registration)
  show "salt_of (snd (generate_authentication_options c u st)) n = salt_of st n"
    by (rule salt_of_users_eq) (rule users_generate_authentication_options)
  show "salt_of (snd (verify_authentication VA u ra st)) n = salt_of st n"
    by (rule salt_of_users_eq) (rule users_verify_authentication)
  show "salt_of (snd (store_blob u blob nonce st)) n = salt_of st n"
    by (rule salt_of_store_blob)
  show "snd (retrieve_blob u st) = st"
    by (simp add: retrieve_blob_def split: option.splits sum.splits)
  show "snd (get_prf_salt u st) = st"
    by (simp add: get_prf_salt_def split: option.splits)
  show "snd (check_blob u st) = st"
    by (simp add: check_blob_def split: option.splits)
next
  assume "getUser (DB st) u = None"
  then show "snd (save_prf_salt u s st) = st"
    by (simp add: save_prf_salt_def)
next
  assume "getUser (DB st) u \<noteq> None"
  then show "salt_of (snd (save_prf_salt u s st)) u = Some s"
    by (auto intro: salt_of_save_prf_salt_same)
next
  assume "distinct (map user_id (users (DB st))) \<and> n \<noteq> u"
  then show "salt_of (snd (save_prf_salt u s st)) n = salt_of st n"
    by (simp add: salt_of_save_prf_salt_other)
qed


theorem prf_salt_changed_only_by_save_prf_salt_witness:
  "salt_of (snd (save_prf_salt ''bob'' ''c2FsdC10d28'' server0)) ''bob'' = Some ''c2FsdC10d28''
   \<and> salt_of (snd (save_prf_salt ''bob'' ''c2FsdC10d28'' server0)) ''alice'' = Some ''c2FsdC1vbmU''
   \<and> snd (save_prf_salt ''carol'' ''c2FsdC10d28'' server0) = server0
   \<and> salt_of (snd (generate_registration_options ''c'' ''alice'' server0)) ''alice''
        = Some ''c2FsdC1vbmU''"
  using prf_salt_changed_only_by_save_prf_salt [of "''c''" "''bob''" server0 "''alice''"
          demo_verifyRegistrationResponse "alice_attestation ''c''"
          "demo_verifyAuthenticationResponse" "alice_assertion ''c'' 6" "''aGVsbG8=''"
          "''bm9uY2U''" "''c2FsdC10d28''"]
        prf_salt_changed_only_by_save_prf_salt [of "''c''" "''carol''" server0 "''alice''"
          demo_verifyRegistrationResponse "alice_attestation ''c''"
          "demo_verifyAuthenticationResponse" "alice_assertion ''c'' 6" "''aGVsbG8=''"
          "''bm9uY2U''" "''c2FsdC10d28''"]
        prf_salt_changed_only_by_save_prf_salt [of "''c''" "''alice''" server0 "''alice''"
          demo_verifyRegistrationResponse "alice_attestation ''c''"
          "demo_verifyAuthenticationResponse" "alice_assertion ''c'' 6" "''aGVsbG8=''"
          "''bm9uY2U''" "''c2FsdC10d28''"]
  by (simp add: salt_of_def save_prf_salt_def generate_registration_options_def db_defs demo_defs)


subsection \<open>Registration from a newly loaded page\<close>

text \<open>\<open>handleRegister\<close> takes the salt from the React state and draws a new one when
  the state holds none; it does not ask the server for the stored salt. After a verified
  registration it posts its salt to \<open>/save-prf-salt\<close>. When Alice, who has a stored
  salt, registers another authenticator from a newly loaded page, her stored salt is
  replaced by the newly drawn one.\<close>

lemma salt_text:
  "base64url (map (entropy demo_crypto) [0..<32]) = ''AwoRGB8mLTQ7QklQV15lbHN6gYiPlp2kq7K5wMfO1dw''"
  by code_simp

lemma register_again_replaces_salt:
  "salt_of (srv alice_world) ''alice'' = Some ''c2FsdC1vbmU''
   \<and> salt_of (srv (handleRegister (demo_library ''c-reg'') demo_platform alice_world)) ''alice''
       = Some ''AwoRGB8mLTQ7QklQV15lbHN6gYiPlp2kq7K5wMfO1dw''"
proof -
  have d: "drawn demo_crypto = 0"
    by (simp add: demo_crypto_def)
  have m: "max_arguments demo_platform = 100000"
    "startRegistration demo_platform
       = (\<lambda>options salt. Inr (alice_attestation (co_challenge options)))"
    by (simp_all add: demo_platform_def)
  show ?thesis
    by (simp add: alice_world_def handleRegister_def client_defs endpoint_defs db_defs demo_defs
          demo_library_def fresh_app_def d m salt_of_def Let_def uint8ArrayToBase64Url_within
          salt_text)
qed

section \<open>Storing a blob\<close>

text \<open>The key under which \<open>/store-blob\<close> writes is a function of the user id alone,
  and different ids give different keys.\<close>

lemma digit_char_inj:
  assumes "a < 10" and "b < 10" and "digit_char a = digit_char b"
  shows "a = b"
proof -
  have r: "\<And>n::nat. n < 10 \<Longrightarrow> n \<in> {0, 1, 2, 3, 4, 5, 6, 7, 8, 9}"
    by auto
  from r [OF assms(1)] r [OF assms(2)] assms(3) show ?thesis
    by (auto simp: digit_char_def)
qed

lemma toString_nonempty: "toString n \<noteq> []"
  by (subst toString.simps) simp

lemma toString_inj: "toString m = toString n \<Longrightarrow> m = n"
proof (induction m arbitrary: n rule: toString.induct)
  case (1 m)
  show ?case
  proof (cases "m < 10")
    case True
    note m = this
    show ?thesis
    proof (cases "n < 10")
      case True
      with m "1.prems" show ?thesis
        by (simp add: toString.simps [of m] toString.simps [of n] digit_char_inj)
    next
      case False
      with m "1.prems" show ?thesis
        by (simp add: toString.simps [of m] toString.simps [of n]
              toString_nonempty [THEN not_sym])
    qed
  next
    case False
    note m = this
    show ?thesis
    proof (cases "n < 10")
      case True
      with m "1.prems" show ?thesis
        by (simp add: toString.simps [of m] toString.simps [of n] toString_nonempty)
    next
      case False
      with m "1.prems" have "toString (m div 10) = toString (n div 10)"
          and d: "digit_char (m mod 10) = digit_char (n mod 10)"
        by (simp_all add: toString.simps [of m] toString.simps [of n])
      then have "m div 10 = n div 10"
        using "1.IH" [OF m] by blast
      moreover have "m mod 10 = n mod 10"
        using d by (rule digit_char_inj [rotated 2]) simp_all
      ultimately show ?thesis
        by (metis div_mult_mod_eq)
    qed
  qed
qed

lemma blobKey_of_inj: "blobKey_of i = blobKey_of j \<Longrightarrow> i = j"
  by (simp add: blobKey_of_def toString_inj)

lemma blobKey_of_nonempty: "blobKey_of i \<noteq> []"
  by (simp add: blobKey_of_def)

lemma getUser_exists_by_id:
  "getUser db u = Some user \<Longrightarrow> \<exists>row. getUserById db (user_id user) = Some row"
proof -
  assume "getUser db u = Some user"
  then have "user \<in> set (users db)"
    by (auto simp: getUser_def dest: find_Some_set)
  then have "find (\<lambda>x. user_id x = user_id user) (users db) \<noteq> None"
    by (auto simp: find_None_iff)
  then show ?thesis by (auto simp: getUserById_def)
qed

lemma getUser_saveUserBlobReference:
  "getUser (saveUserBlobReference db i k n) u
     = map_option (\<lambda>x. if user_id x = i
                         then x\<lparr>encrypted_blob_key := Some k, blob_nonce := Some n\<rparr> else x)
         (getUser db u)"
  by (simp add: getUser_def saveUserBlobReference_def find_map_inv)

lemma getUserBlobReference_saveUserBlobReference:
  assumes "getUserById db i = Some row"
  shows "getUserBlobReference (saveUserBlobReference db i k n) i = Some (Some k, Some n)"
proof -
  have "user_id row = i"
    using assms by (auto simp: getUserById_def dest: find_SomeD)
  with assms show ?thesis
    by (simp add: getUserBlobReference_def getUserById_def saveUserBlobReference_def find_map_inv)
qed

lemma store_blob_stores:
  assumes "getUser (DB st) u = Some user" and "atob b = Inr blobData"
  shows "store_blob u b n st =
           (StoreBlobReply (blobKey_of (user_id user)),
            st\<lparr>R2_BUCKET := (R2_BUCKET st)(blobKey_of (user_id user) \<mapsto> blobData),
               DB := saveUserBlobReference (DB st) (user_id user) (blobKey_of (user_id user)) n\<rparr>)"
  using assms by (simp add: store_blob_def Let_def)

lemma worker_max_arguments_store_blob:
  "worker_max_arguments (snd (store_blob u b n st)) = worker_max_arguments st"
  by (simp add: store_blob_def Let_def split: option.splits sum.splits)

lemma retrieve_after_store:
  assumes "getUser (DB st) u = Some user" and "atob b = Inr blobData"
    and "length blobData \<le> worker_max_arguments st"
  shows "retrieve_blob u (snd (store_blob u b n st))
           = (RetrieveBlobReply (btoa blobData) (Some n), snd (store_blob u b n st))"
proof -
  obtain row where row: "getUserById (DB st) (user_id user) = Some row"
    using getUser_exists_by_id [OF assms(1)] by blast
  show ?thesis
    unfolding store_blob_stores [OF assms(1,2)]
    using assms(1,3)
    by (simp add: retrieve_blob_def getUser_saveUserBlobReference btoa_spread_within
          getUserBlobReference_saveUserBlobReference [OF row] blobKey_of_nonempty)
qed



lemma getUser_after_store:
  assumes "getUser (DB st) u = Some user"
  shows "\<exists>user'. getUser (DB (snd (store_blob u b n st))) u = Some user'
                 \<and> user_id user' = user_id user"
  using assms
  by (auto simp: store_blob_def Let_def getUser_saveUserBlobReference split: sum.splits)

section \<open>Reading the blob\<close>

subsection \<open>A stored blob\<close>




lemma getUser_alice: "getUser (DB server0) ''alice'' = Some alice"
  by (simp add: getUser_def demo_defs)

lemma blobKey_of_alice: "blobKey_of (user_id alice) = ''user-1-blob''"
  by (simp add: blobKey_of_def toString.simps digit_char_def alice_def)






section \<open>Key derivation\<close>

lemma deriveEncryptionKey_eq:
  "deriveEncryptionKey c prf salt =
     Inr \<lparr>algorithm = AES_GCM 256, extractable = False, usages = [use_encrypt, use_decrypt],
          key_bits = hkdf_sha256 c prf
                       (case salt of None \<Rightarrow> replicate 32 0 | Some s \<Rightarrow> s) [] 256\<rparr>"
  by (simp add: deriveEncryptionKey_def importKey_def deriveKey_def Let_def)

text \<open>
  Claim C5: \<open>deriveEncryptionKey\<close> is deterministic. It draws nothing from the random
  source and reads no state: under any two states of the global \<open>crypto\<close> object that
  offer the same HKDF function (the same platform at two moments, or in two processes), the
  calls with one pair of PRF output and salt give the same result, and that result is an
  AES-GCM key of 256 bits.
\<close>

theorem deriveEncryptionKey_deterministic:
  "hkdf_sha256 c1 = hkdf_sha256 c2 \<longrightarrow>
     deriveEncryptionKey c1 prf salt = deriveEncryptionKey c2 prf salt
     \<and> (\<exists>key. deriveEncryptionKey c1 prf salt = Inr key \<and> algorithm key = AES_GCM 256)"
  by (simp add: deriveEncryptionKey_eq)

theorem deriveEncryptionKey_deterministic_witness:
  "hkdf_sha256 demo_crypto = hkdf_sha256 (snd (generatePrfSalt demo_crypto))
   \<and> drawn demo_crypto \<noteq> drawn (snd (generatePrfSalt demo_crypto))
   \<and> deriveEncryptionKey demo_crypto [1, 2, 3] (Some [4, 5])
       = deriveEncryptionKey (snd (generatePrfSalt demo_crypto)) [1, 2, 3] (Some [4, 5])"
proof -
  have h: "hkdf_sha256 demo_crypto = hkdf_sha256 (snd (generatePrfSalt demo_crypto))"
    by (simp add: generatePrfSalt_def getRandomValues_def)
  have d: "drawn demo_crypto \<noteq> drawn (snd (generatePrfSalt demo_crypto))"
    by (simp add: generatePrfSalt_def getRandomValues_def)
  from deriveEncryptionKey_deterministic [of demo_crypto "snd (generatePrfSalt demo_crypto)"
         "[1, 2, 3]" "Some [4, 5]"] h d
  show ?thesis by blast
qed

text \<open>
  Claim C7, as stated: \<open>deriveEncryptionKey\<close> fails with InvalidKeyMaterial when the PRF
  output or the salt is not 32 bytes long, and has no other failure.

  The function checks no length and \<open>importKey\<close> accepts raw HKDF material of any
  length: a 3-byte PRF output and a 2-byte salt give a key.
\<close>

theorem deriveEncryptionKey_length_counterexample:
  "length [1, 2, 3 :: 8 word] \<noteq> 32 \<and> length [4, 5 :: 8 word] \<noteq> 32
   \<and> deriveEncryptionKey demo_crypto [1, 2, 3] (Some [4, 5])
       = Inr \<lparr>algorithm = AES_GCM 256, extractable = False, usages = [use_encrypt, use_decrypt],
              key_bits = [1, 2, 3, 4, 5] @ replicate 27 0\<rparr>"
  by (simp add: deriveEncryptionKey_eq demo_crypto_def)

text \<open>
  Claim C7, amended: \<open>deriveEncryptionKey\<close> has no failure at all. For a PRF output
  and a salt of any length (an omitted salt being 32 zero bytes) it answers the
  non-extractable AES-GCM key of 256 bits, usable for encryption and decryption, whose
  bits HKDF derives from the PRF output, the salt and an empty info; so derivation
  succeeds in particular for all 32-byte inputs.
\<close>

theorem deriveEncryptionKey_total:
  "\<exists>key. deriveEncryptionKey c prf salt = Inr key
         \<and> algorithm key = AES_GCM 256 \<and> \<not> extractable key
         \<and> usages key = [use_encrypt, use_decrypt]
         \<and> key_bits key = hkdf_sha256 c prf
                             (case salt of None \<Rightarrow> replicate 32 0 | Some s \<Rightarrow> s) [] 256"
  by (simp add: deriveEncryptionKey_eq)

theorem deriveEncryptionKey_total_witness:
  "\<exists>key. deriveEncryptionKey demo_crypto (replicate 32 7) (Some (replicate 32 9)) = Inr key
         \<and> algorithm key = AES_GCM 256 \<and> \<not> extractable key
         \<and> key_bits key = replicate 32 7"
  using deriveEncryptionKey_total [of demo_crypto "replicate 32 7" "Some (replicate 32 9)"]
  by (auto simp: demo_crypto_def)

section \<open>The salt at first authentication\<close>

text \<open>No run of \<open>handleAuthenticate\<close> changes the salt column of any user: the handler
  calls \<open>/get-prf-salt\<close>, \<open>/generate-authentication-options\<close>,
  \<open>/verify-authentication\<close> and \<open>/check-blob\<close>, and never \<open>/save-prf-salt\<close>.\<close>

lemma users_handleAuthenticate:
  "users (DB (srv (handleAuthenticate lib pf w))) = users (DB (srv w))"
  by (simp add: handleAuthenticate_def Let_def split_beta
        users_generate_authentication_options users_verify_authentication
      split: option.splits sum.splits)

lemma handleAuthenticate_keeps_salts:
  "salt_of (srv (handleAuthenticate lib pf w)) n = salt_of (srv w) n"
  by (rule salt_of_users_eq) (rule users_handleAuthenticate)


text \<open>
  Claim C8 says that an authentication of a user with credentials and no stored salt
  generates a salt and persists it, so that later authentications use the same salt.
  Evaluated for Bob: the first login succeeds with the salt made of the random bytes 0 to
  31 and leaves his salt column null; the second login finds no salt again and succeeds
  with the random bytes 32 to 63, a different salt and a different PRF output.
\<close>

theorem login_salt_not_persisted:
  "salt_of server0 ''bob'' = None
   \<and> isAuthenticated (app bob_first_login)
   \<and> prfSalt (app bob_first_login) = Some (map (entropy demo_crypto) [0..<32])
   \<and> salt_of (srv bob_first_login) ''bob'' = None
   \<and> isAuthenticated (app bob_second_login)
   \<and> prfSalt (app bob_second_login) = Some (map (entropy demo_crypto) [32..<64])
   \<and> salt_of (srv bob_second_login) ''bob'' = None
   \<and> prfSalt (app bob_second_login) \<noteq> prfSalt (app bob_first_login)
   \<and> prfOutput (app bob_second_login) \<noteq> prfOutput (app bob_first_login)"
  by (simp add: bob_second_login_def bob_first_login_def bob_world_def client_defs endpoint_defs
        db_defs demo_defs demo_crypto_def demo_platform_def demo_library_def fresh_app_def
        salt_of_def Let_def upt_0_32)


theorem login_salt_not_persisted_witness:
  "salt_of (srv bob_first_login) ''bob'' = None
   \<and> prfSalt (app bob_second_login) \<noteq> prfSalt (app bob_first_login)"
  using login_salt_not_persisted by blast

section \<open>Storing twice\<close>

subsection \<open>One run of each handler\<close>

lemma generateNonce_eq:
  "generateNonce c = (map (entropy c) [drawn c ..< drawn c + 12], c\<lparr>drawn := drawn c + 12\<rparr>)"
  by (simp add: generateNonce_def getRandomValues_def)

lemma length_generateNonce: "length (fst (generateNonce c)) = 12"
  by (simp add: generateNonce_eq)

lemma crypto_after_generateNonce:
  "hkdf_sha256 (snd (generateNonce c)) = hkdf_sha256 c"
  "aes_gcm_encrypt (snd (generateNonce c)) = aes_gcm_encrypt c"
  "aes_gcm_decrypt (snd (generateNonce c)) = aes_gcm_decrypt c"
  by (simp_all add: generateNonce_eq)

lemma encrypt_message_eq:
  "encrypt_message (snd (generateNonce c)) prf messageBytes (fst (generateNonce c))
     = Inr (encrypted_under c prf messageBytes)"
  by (simp add: encrypt_message_def deriveEncryptionKey_eq encryptData_def subtle_encrypt_def
        encrypted_under_def crypto_after_generateNonce)

lemma handleEncryptAndStore_stores:
  assumes "prfOutput (app w) = Some prf"
    and "trim (userMessage (app w)) \<noteq> []"
    and "getUser (DB (srv w)) (ui_username (app w)) = Some user"
    and "length (encrypted_under (crypto w) prf (encodeText pf (userMessage (app w))))
           \<le> max_arguments pf"
    and "12 \<le> max_arguments pf"
  shows "handleEncryptAndStore pf w =
     \<lparr>app = (app w)\<lparr>ui_message := Plain ''Successfully encrypted and stored message in R2!'',
                     encryptedMessage :=
                       btoa (encrypted_under (crypto w) prf (encodeText pf (userMessage (app w)))),
                     hasBlob := True\<rparr>,
      crypto = snd (generateNonce (crypto w)),
      srv = snd (store_blob (ui_username (app w))
                   (btoa (encrypted_under (crypto w) prf (encodeText pf (userMessage (app w)))))
                   (base64url (fst (generateNonce (crypto w)))) (srv w))\<rparr>"
  using assms
  by (simp add: handleEncryptAndStore_def Let_def split_beta encrypt_message_eq
        btoa_spread_within uint8ArrayToBase64Url_within length_generateNonce
        store_blob_stores [OF assms(3) atob_btoa] is_json_def json_success_def)


lemma handleRetrieveAndDecrypt_decrypts:
  assumes "prfOutput (app w) = Some prf"
    and "fst (retrieve_blob (ui_username (app w)) (srv w))
           = RetrieveBlobReply (btoa ct) (Some (base64url nonce))"
    and "aes_gcm_decrypt (crypto w) (hkdf_sha256 (crypto w) prf (replicate 32 0) [] 256) nonce ct
           = Some plain"
  shows "handleRetrieveAndDecrypt pf w =
           w\<lparr>app := (app w)\<lparr>ui_message := Plain ''Successfully decrypted message!'',
                             decryptedBlob := Some plain,
                             decryptedMessage := decodeText pf plain\<rparr>\<rparr>"
  using assms
  by (simp add: handleRetrieveAndDecrypt_def Let_def ok_def retrieved_blob_def decrypt_message_def
        atob_btoa base64url_roundtrip deriveEncryptionKey_eq decryptData_def subtle_decrypt_def)

subsection \<open>Two stores and a read\<close>

lemma first_store:
  assumes has_prf: "prfOutput (app w) = Some prf"
    and user: "getUser (DB (srv w)) (ui_username (app w)) = Some user"
    and P1: "trim P1 \<noteq> []"
    and first: "length (encrypted_under (crypto w) prf (encodeText pf P1)) \<le> max_arguments pf"
      "12 \<le> max_arguments pf"
  shows "handleEncryptAndStore pf (type_message P1 w) =
     \<lparr>app = (app w)\<lparr>userMessage := P1,
                     ui_message := Plain ''Successfully encrypted and stored message in R2!'',
                     encryptedMessage := btoa (encrypted_under (crypto w) prf (encodeText pf P1)),
                     hasBlob := True\<rparr>,
      crypto = snd (generateNonce (crypto w)),
      srv = (srv w)\<lparr>R2_BUCKET := (R2_BUCKET (srv w))
                       (blobKey_of (user_id user)
                          \<mapsto> encrypted_under (crypto w) prf (encodeText pf P1)),
                    DB := saveUserBlobReference (DB (srv w)) (user_id user)
                            (blobKey_of (user_id user))
                            (base64url (fst (generateNonce (crypto w))))\<rparr>\<rparr>"
proof -
  have w0: "prfOutput (app (type_message P1 w)) = Some prf"
      "trim (userMessage (app (type_message P1 w))) \<noteq> []"
      "getUser (DB (srv (type_message P1 w))) (ui_username (app (type_message P1 w))) = Some user"
      "length (encrypted_under (crypto (type_message P1 w)) prf
                 (encodeText pf (userMessage (app (type_message P1 w))))) \<le> max_arguments pf"
    using has_prf user P1 first by (simp_all add: type_message_def)
  show ?thesis
    unfolding handleEncryptAndStore_stores [OF w0 first(2)]
    by (simp add: type_message_def store_blob_stores [OF user atob_btoa])
qed

lemma read_after_store:
  assumes has_prf: "prfOutput a = Some prf"
    and user: "getUser (DB st) (ui_username a) = Some user"
    and row: "getUserBlobReference (DB st) (user_id user)
                = Some (Some key, Some (base64url nonce))" "key \<noteq> []"
    and object: "R2_BUCKET st key
                   = Some (aes_gcm_encrypt c (hkdf_sha256 c prf (replicate 32 0) [] 256) nonce plain)"
    and within: "length (aes_gcm_encrypt c (hkdf_sha256 c prf (replicate 32 0) [] 256) nonce plain)
                   \<le> worker_max_arguments st"
    and aes: "\<forall>key iv data. aes_gcm_decrypt c key iv (aes_gcm_encrypt c key iv data) = Some data"
  shows "handleRetrieveAndDecrypt pf \<lparr>app = a, crypto = c, srv = st\<rparr> =
           \<lparr>app = a\<lparr>ui_message := Plain ''Successfully decrypted message!'',
                     decryptedBlob := Some plain,
                     decryptedMessage := decodeText pf plain\<rparr>,
            crypto = c, srv = st\<rparr>"
proof -
  let ?w = "\<lparr>app = a, crypto = c, srv = st\<rparr>"
  let ?ct = "aes_gcm_encrypt c (hkdf_sha256 c prf (replicate 32 0) [] 256) nonce plain"
  have 1: "prfOutput (app ?w) = Some prf"
    using has_prf by simp
  have 2: "fst (retrieve_blob (ui_username (app ?w)) (srv ?w))
             = RetrieveBlobReply (btoa ?ct) (Some (base64url nonce))"
    using user row object within by (simp add: retrieve_blob_def btoa_spread_within)
  have 3: "aes_gcm_decrypt (crypto ?w) (hkdf_sha256 (crypto ?w) prf (replicate 32 0) [] 256)
             nonce ?ct = Some plain"
    using aes by simp
  show ?thesis
    unfolding handleRetrieveAndDecrypt_decrypts [OF 1 2 3] by simp
qed

lemma stored_row:
  assumes "getUser (DB st) u = Some user"
  shows "getUser (DB (st\<lparr>R2_BUCKET := b,
                          DB := saveUserBlobReference (DB st) (user_id user) k n\<rparr>)) u
           = Some (user\<lparr>encrypted_blob_key := Some k, blob_nonce := Some n\<rparr>)"
    and "getUserBlobReference
           (DB (st\<lparr>R2_BUCKET := b, DB := saveUserBlobReference (DB st) (user_id user) k n\<rparr>))
           (user_id user) = Some (Some k, Some n)"
proof -
  obtain row where row: "getUserById (DB st) (user_id user) = Some row"
    using getUser_exists_by_id [OF assms] by blast
  show "getUser (DB (st\<lparr>R2_BUCKET := b,
                          DB := saveUserBlobReference (DB st) (user_id user) k n\<rparr>)) u
           = Some (user\<lparr>encrypted_blob_key := Some k, blob_nonce := Some n\<rparr>)"
    using assms by (simp add: getUser_saveUserBlobReference)
  show "getUserBlobReference
           (DB (st\<lparr>R2_BUCKET := b, DB := saveUserBlobReference (DB st) (user_id user) k n\<rparr>))
           (user_id user) = Some (Some k, Some n)"
    by (simp add: getUserBlobReference_saveUserBlobReference [OF row])
qed


lemma demo_crypto_roundtrip:
  "aes_gcm_decrypt demo_crypto key iv (aes_gcm_encrypt demo_crypto key iv data) = Some data"
  by (simp add: demo_crypto_def)

lemma length_string_bytes: "length (string_bytes s) = length s"
  by (simp add: string_bytes_def)



lemma length_demo_ciphertext:
  assumes "aes_gcm_encrypt c = aes_gcm_encrypt demo_crypto"
    and "hkdf_sha256 c = hkdf_sha256 demo_crypto"
  shows "length (encrypted_under c prf messageBytes) = length messageBytes + 16"
  by (simp add: encrypted_under_def assms demo_crypto_def)


text \<open>Within the limits the second store replaces the first: the bucket holds the second
  ciphertext under the user's key and no other new key, the user's row holds that key and
  the second nonce, and retrieve-and-decrypt, from the page that stored or from any page
  state of the same user with the same PRF output, returns the bytes and the text of
  \<open>P2\<close>, so not those of a different \<open>P1\<close>. (The page disables its button once a
  blob is stored; the handler and the endpoint have no such guard.)\<close>

lemma second_store_overwrites_first:
  assumes has_prf: "prfOutput (app w) = Some prf"
    and user: "getUser (DB (srv w)) (ui_username (app w)) = Some user"
    and P1: "trim P1 \<noteq> []" and P2: "trim P2 \<noteq> []"
    and aes: "\<forall>key iv data.
                aes_gcm_decrypt (crypto w) key iv (aes_gcm_encrypt (crypto w) key iv data) = Some data"
    and first: "length (encrypted_under (crypto w) prf (encodeText pf P1)) \<le> max_arguments pf"
      "12 \<le> max_arguments pf"
    and second:
      "length (encrypted_under (snd (generateNonce (crypto w))) prf (encodeText pf P2))
         \<le> max_arguments pf"
      "length (encrypted_under (snd (generateNonce (crypto w))) prf (encodeText pf P2))
         \<le> worker_max_arguments (srv w)"
  shows "R2_BUCKET (srv (handleEncryptAndStore pf (type_message P2
               (handleEncryptAndStore pf (type_message P1 w))))) (blobKey_of (user_id user))
           = Some (encrypted_under (snd (generateNonce (crypto w))) prf (encodeText pf P2))
       \<and> dom (R2_BUCKET (srv (handleEncryptAndStore pf (type_message P2
               (handleEncryptAndStore pf (type_message P1 w))))))
           = insert (blobKey_of (user_id user)) (dom (R2_BUCKET (srv w)))
       \<and> getUserBlobReference (DB (srv (handleEncryptAndStore pf (type_message P2
               (handleEncryptAndStore pf (type_message P1 w)))))) (user_id user)
           = Some (Some (blobKey_of (user_id user)),
                   Some (base64url (fst (generateNonce (snd (generateNonce (crypto w)))))))
       \<and> (\<forall>a. prfOutput a = Some prf \<and> ui_username a = ui_username (app w) \<longrightarrow>
              decryptedBlob (app (handleRetrieveAndDecrypt pf
                ((handleEncryptAndStore pf (type_message P2
                    (handleEncryptAndStore pf (type_message P1 w))))\<lparr>app := a\<rparr>)))
                = Some (encodeText pf P2)
              \<and> decryptedMessage (app (handleRetrieveAndDecrypt pf
                ((handleEncryptAndStore pf (type_message P2
                    (handleEncryptAndStore pf (type_message P1 w))))\<lparr>app := a\<rparr>)))
                = decodeText pf (encodeText pf P2))
       \<and> decryptedBlob (app (handleRetrieveAndDecrypt pf
            (handleEncryptAndStore pf (type_message P2
               (handleEncryptAndStore pf (type_message P1 w))))))
           = Some (encodeText pf P2)
       \<and> decryptedMessage (app (handleRetrieveAndDecrypt pf
            (handleEncryptAndStore pf (type_message P2
               (handleEncryptAndStore pf (type_message P1 w))))))
           = decodeText pf (encodeText pf P2)
       \<and> (encodeText pf P1 \<noteq> encodeText pf P2 \<longrightarrow>
            decryptedBlob (app (handleRetrieveAndDecrypt pf
              (handleEncryptAndStore pf (type_message P2
                 (handleEncryptAndStore pf (type_message P1 w))))))
             \<noteq> Some (encodeText pf P1))"
proof -
  let ?u = "ui_username (app w)"
  let ?k = "blobKey_of (user_id user)"
  define cA where "cA = snd (generateNonce (crypto w))"
  define cB where "cB = snd (generateNonce cA)"
  define n1 where "n1 = fst (generateNonce (crypto w))"
  define n2 where "n2 = fst (generateNonce cA)"
  define e1 where "e1 = encrypted_under (crypto w) prf (encodeText pf P1)"
  define e2 where "e2 = encrypted_under cA prf (encodeText pf P2)"
  define a1 where "a1 = (app w)\<lparr>userMessage := P1,
                     ui_message := Plain ''Successfully encrypted and stored message in R2!'',
                     encryptedMessage := btoa e1, hasBlob := True\<rparr>"
  define a2 where "a2 = a1\<lparr>userMessage := P2,
                     ui_message := Plain ''Successfully encrypted and stored message in R2!'',
                     encryptedMessage := btoa e2, hasBlob := True\<rparr>"
  define s1 where "s1 = (srv w)\<lparr>R2_BUCKET := (R2_BUCKET (srv w))(?k \<mapsto> e1),
                    DB := saveUserBlobReference (DB (srv w)) (user_id user) ?k (base64url n1)\<rparr>"
  define user1 where
    "user1 = user\<lparr>encrypted_blob_key := Some ?k, blob_nonce := Some (base64url n1)\<rparr>"
  define s2 where "s2 = s1\<lparr>R2_BUCKET := (R2_BUCKET s1)(?k \<mapsto> e2),
                    DB := saveUserBlobReference (DB s1) (user_id user) ?k (base64url n2)\<rparr>"
  define w1 where "w1 = handleEncryptAndStore pf (type_message P1 w)"
  define w2 where "w2 = handleEncryptAndStore pf (type_message P2 w1)"
  have w1: "w1 = \<lparr>app = a1, crypto = cA, srv = s1\<rparr>"
    unfolding w1_def first_store [OF has_prf user P1 first(1,2)]
    by (simp add: a1_def cA_def s1_def e1_def n1_def)
  have id1: "user_id user1 = user_id user"
    by (simp add: user1_def)
  have t: "prfOutput (app \<lparr>app = a1, crypto = cA, srv = s1\<rparr>) = Some prf"
      "getUser (DB (srv \<lparr>app = a1, crypto = cA, srv = s1\<rparr>))
         (ui_username (app \<lparr>app = a1, crypto = cA, srv = s1\<rparr>)) = Some user1"
      "length (encrypted_under (crypto \<lparr>app = a1, crypto = cA, srv = s1\<rparr>) prf
                 (encodeText pf P2)) \<le> max_arguments pf"
    using has_prf second(1) stored_row(1) [OF user]
    by (simp_all add: a1_def cA_def s1_def user1_def)
  have w2: "w2 = \<lparr>app = a2, crypto = cB, srv = s2\<rparr>"
    unfolding w2_def w1 first_store [OF t(1,2) P2 t(3) first(2)]
    by (simp add: a2_def cB_def s2_def e2_def n2_def id1)
  have e2: "e2 = aes_gcm_encrypt cB (hkdf_sha256 cB prf (replicate 32 0) [] 256) n2
                   (encodeText pf P2)"
    by (simp add: e2_def encrypted_under_def n2_def cB_def crypto_after_generateNonce)
  have aesB: "\<forall>key iv data. aes_gcm_decrypt cB key iv (aes_gcm_encrypt cB key iv data) = Some data"
    using aes by (simp add: cB_def cA_def crypto_after_generateNonce)
  have u1: "getUser (DB s1) ?u = Some user1"
    using stored_row(1) [OF user] by (simp add: s1_def user1_def)
  have r2: "getUser (DB s2) ?u
              = Some (user1\<lparr>encrypted_blob_key := Some ?k, blob_nonce := Some (base64url n2)\<rparr>)"
    using stored_row(1) [OF u1] by (simp add: s2_def id1)
  have r3: "getUserBlobReference (DB s2) (user_id user) = Some (Some ?k, Some (base64url n2))"
    using stored_row(2) [OF u1] by (simp add: s2_def id1)
  have r4: "R2_BUCKET s2 ?k = Some e2"
    by (simp add: s2_def)
  have r5: "length e2 \<le> worker_max_arguments s2"
    using second(2) by (simp add: e2_def cA_def s2_def s1_def)
  have read: "handleRetrieveAndDecrypt pf \<lparr>app = a, crypto = cB, srv = s2\<rparr> =
           \<lparr>app = a\<lparr>ui_message := Plain ''Successfully decrypted message!'',
                     decryptedBlob := Some (encodeText pf P2),
                     decryptedMessage := decodeText pf (encodeText pf P2)\<rparr>,
            crypto = cB, srv = s2\<rparr>"
    if "prfOutput a = Some prf" and "ui_username a = ?u" for a
  proof -
    have g: "getUser (DB s2) (ui_username a)
              = Some (user1\<lparr>encrypted_blob_key := Some ?k, blob_nonce := Some (base64url n2)\<rparr>)"
      using r2 that(2) by simp
    have h: "getUserBlobReference (DB s2)
               (user_id (user1\<lparr>encrypted_blob_key := Some ?k, blob_nonce := Some (base64url n2)\<rparr>))
               = Some (Some ?k, Some (base64url n2))"
      using r3 by (simp add: id1)
    show ?thesis
      by (rule read_after_store [OF that(1) g h blobKey_of_nonempty r4 [unfolded e2]
                r5 [unfolded e2] aesB])
  qed
  have a2: "prfOutput a2 = Some prf" "ui_username a2 = ?u"
    using has_prf by (simp_all add: a2_def a1_def)
  have bucket: "dom (R2_BUCKET s2) = insert ?k (dom (R2_BUCKET (srv w)))"
    by (simp add: s2_def s1_def)
  have all: "\<forall>a. prfOutput a = Some prf \<and> ui_username a = ?u \<longrightarrow>
              decryptedBlob (app (handleRetrieveAndDecrypt pf (w2\<lparr>app := a\<rparr>)))
                = Some (encodeText pf P2)
              \<and> decryptedMessage (app (handleRetrieveAndDecrypt pf (w2\<lparr>app := a\<rparr>)))
                = decodeText pf (encodeText pf P2)"
    by (simp add: w2 read)
  have own: "decryptedBlob (app (handleRetrieveAndDecrypt pf w2)) = Some (encodeText pf P2)"
    "decryptedMessage (app (handleRetrieveAndDecrypt pf w2)) = decodeText pf (encodeText pf P2)"
    unfolding w2 read [OF a2] by simp_all
  have rec: "getUserBlobReference (DB (srv w2)) (user_id user)
               = Some (Some ?k, Some (base64url (fst (generateNonce (snd (generateNonce (crypto w)))))))"
    using r3 by (simp add: w2 n2_def cA_def)
  have obj: "R2_BUCKET (srv w2) ?k
               = Some (encrypted_under (snd (generateNonce (crypto w))) prf (encodeText pf P2))"
    using r4 by (simp add: w2 e2_def cA_def)
  have dom: "dom (R2_BUCKET (srv w2)) = insert ?k (dom (R2_BUCKET (srv w)))"
    using bucket by (simp add: w2)
  show ?thesis
    unfolding w1_def [symmetric] w2_def [symmetric]
    using obj dom rec all own by simp
qed

lemma second_store_overwrites_first_demo:
  "decryptedBlob (app (handleRetrieveAndDecrypt demo_platform
      (handleEncryptAndStore demo_platform (type_message ''world''
         (handleEncryptAndStore demo_platform (type_message ''hello'' alice_session))))))
     = Some [119, 111, 114, 108, 100]
   \<and> decryptedMessage (app (handleRetrieveAndDecrypt demo_platform
      (handleEncryptAndStore demo_platform (type_message ''world''
         (handleEncryptAndStore demo_platform (type_message ''hello'' alice_session))))))
     = ''world''
   \<and> dom (R2_BUCKET (srv (handleEncryptAndStore demo_platform (type_message ''world''
         (handleEncryptAndStore demo_platform (type_message ''hello'' alice_session))))))
     = {''user-1-blob''}"
proof -
  have 1: "prfOutput (app alice_session) = Some (replicate 32 7)"
    by (simp add: alice_session_def fresh_app_def)
  have 2: "getUser (DB (srv alice_session)) (ui_username (app alice_session)) = Some alice"
    by (simp add: alice_session_def fresh_app_def getUser_alice)
  have 3: "trim ''hello'' \<noteq> []" "trim ''world'' \<noteq> []"
    by (simp_all add: trim_def js_whitespace_def)
  have 4: "\<forall>key iv data. aes_gcm_decrypt (crypto alice_session) key iv
              (aes_gcm_encrypt (crypto alice_session) key iv data) = Some data"
    by (simp add: alice_session_def demo_crypto_roundtrip)
  have c: "crypto alice_session = demo_crypto" "max_arguments demo_platform = 100000"
    "worker_max_arguments (srv alice_session) = 100000"
    "encodeText demo_platform = string_bytes"
    by (simp_all add: alice_session_def demo_platform_def server0_def)
  have 5: "length (encrypted_under (crypto alice_session) (replicate 32 7)
                     (encodeText demo_platform ''hello'')) \<le> max_arguments demo_platform"
    "12 \<le> max_arguments demo_platform"
    by (simp_all add: c length_demo_ciphertext length_string_bytes)
  have 6: "length (encrypted_under (snd (generateNonce (crypto alice_session)))
                         (replicate 32 7) (encodeText demo_platform ''world''))
             \<le> max_arguments demo_platform"
     "length (encrypted_under (snd (generateNonce (crypto alice_session)))
                         (replicate 32 7) (encodeText demo_platform ''world''))
             \<le> worker_max_arguments (srv alice_session)"
    by (simp_all add: c length_demo_ciphertext crypto_after_generateNonce length_string_bytes)
  have 7: "encodeText demo_platform ''world'' = [119, 111, 114, 108, 100]"
    "decodeText demo_platform [119, 111, 114, 108, 100] = ''world''"
    "R2_BUCKET (srv alice_session) = Map.empty"
    by (simp_all add: demo_platform_def string_bytes_def char_of_eq_iff alice_session_def
          server0_def)
  from second_store_overwrites_first [OF 1 2 3 4 5 6]
  show ?thesis by (simp add: 7 blobKey_of_alice)
qed

end
